theory Spec2Isabelle
  imports Complex_Main "HOL-Library.Sublist" "HOL-Library.Code_Target_Nat"
begin

section \<open>JavaScript values\<close>

text \<open>
  The bot is written in JavaScript. Strings are modelled as \<^typ>\<open>string\<close>, arrays as
  lists. A property that the code tests for truthiness, or that may be absent, is a
  \<open>jsval\<close>: \<open>undefined\<close> (also: the property is absent), \<open>null\<close>, a boolean or a
  string.
\<close>

datatype jsval = Undefined | Null | Bool bool | Str string

text \<open>JavaScript's \<open>ToBoolean\<close>: the empty string, \<open>false\<close>, \<open>null\<close> and \<open>undefined\<close> are falsy.\<close>

fun truthy :: "jsval \<Rightarrow> bool" where
  "truthy Undefined = False"
| "truthy Null = False"
| "truthy (Bool b) = b"
| "truthy (Str s) = (s \<noteq> [])"

text \<open>The operator \<open>a || b\<close>.\<close>

definition js_or :: "jsval \<Rightarrow> jsval \<Rightarrow> jsval" where
  "js_or a b = (if truthy a then a else b)"

section \<open>Source records and their de-duplication (source-retrieval.js)\<close>

text \<open>
  A source record as \<open>processSources\<close> builds it:
  \<open>{title, authors, year, doi, abstract, url, zoteroKey}\<close>.
\<close>

record source =
  title :: jsval
  authors :: "string list"
  year :: "int option"
  doi :: jsval
  abstract :: jsval
  url :: jsval
  zoteroKey :: jsval

text \<open>\<open>const key = source.doi || source.title\<close>\<close>

definition source_key :: "source \<Rightarrow> jsval" where
  "source_key s = js_or (doi s) (title s)"

text \<open>
  \<^verbatim>\<open>
  function deduplicateSources(sources) {
    const seen = new Set();
    return sources.filter(source => {
      const key = source.doi || source.title;
      if (seen.has(key)) return false;
      seen.add(key);
      return true;
    });
  }
  \<close>
  \<open>filter_seen\<close> is the filter with its callback: the set \<open>seen\<close>, which the callback
  updates, is passed along the array. \<open>filter\<close> builds a new array and leaves its
  argument as it was.
\<close>

fun filter_seen :: "jsval set \<Rightarrow> source list \<Rightarrow> source list" where
  "filter_seen seen [] = []"
| "filter_seen seen (s # rest) =
     (let key = source_key s
      in if key \<in> seen then filter_seen seen rest
         else s # filter_seen (insert key seen) rest)"

definition deduplicateSources :: "source list \<Rightarrow> source list" where
  "deduplicateSources sources = filter_seen {} sources"

section \<open>Chunking a draft for delivery (draft-generation.js)\<close>

text \<open>
  A JavaScript string is a sequence of code units, and \<open>length\<close> and \<open>slice\<close> count
  code units: the functions of this section work on a list of any elements.
  \<open>content.slice(b, e)\<close> for indices \<open>0 \<le> b\<close> and \<open>0 \<le> e\<close>: both are clamped to the
  length, and the result is empty when the clamped end is not after the clamped start.
\<close>

definition slice :: "'a list \<Rightarrow> nat \<Rightarrow> nat \<Rightarrow> 'a list" where
  "slice s b e =
     (let len = length s; from = min b len; to = min e len
      in take (to - from) (drop from s))"

text \<open>
  \<^verbatim>\<open>
  function chunkContent(content, maxLength = 4000) {
    const chunks = [];
    for (let i = 0; i < content.length; i += maxLength) {
      chunks.push(content.slice(i, i + maxLength));
    }
    return chunks;
  }
  \<close>
  \<open>maxLength\<close> is a length, a natural number. With \<open>maxLength = 0\<close> and a non-empty
  content the loop never ends, so the loop is a partial function: not returning is
  \<open>None\<close>.
\<close>

partial_function (option) chunk_loop ::
  "'a list \<Rightarrow> nat \<Rightarrow> nat \<Rightarrow> 'a list list \<Rightarrow> 'a list list option" where
  "chunk_loop content maxLength i chunks =
     (if i < length content
      then chunk_loop content maxLength (i + maxLength)
             (chunks @ [slice content i (i + maxLength)])
      else Some chunks)"

declare chunk_loop.simps [code]

definition chunkContent :: "'a list \<Rightarrow> nat \<Rightarrow> 'a list list option" where
  "chunkContent content maxLength = chunk_loop content maxLength 0 []"

section \<open>Strings\<close>

text \<open>
  Template literals and \<open>parseInt\<close> convert a value to a string first (\<open>ToString\<close>).
\<close>

fun to_string :: "jsval \<Rightarrow> string" where
  "to_string Undefined = ''undefined''"
| "to_string Null = ''null''"
| "to_string (Bool b) = (if b then ''true'' else ''false'')"
| "to_string (Str s) = s"

text \<open>\<open>s.startsWith(p)\<close>\<close>

definition startsWith :: "string \<Rightarrow> string \<Rightarrow> bool" where
  "startsWith s p = (take (length p) s = p)"

text \<open>
  \<open>s.split(sep)\<close> for a separator of one character: the pieces between the
  separators, \<open>[s]\<close> when there is none.
\<close>

fun split_on :: "char \<Rightarrow> string \<Rightarrow> string list" where
  "split_on sep [] = [[]]"
| "split_on sep (c # cs) =
     (if c = sep then [] # split_on sep cs
      else (case split_on sep cs of w # ws \<Rightarrow> (c # w) # ws | [] \<Rightarrow> [[c]]))"

text \<open>\<open>xs[i]\<close> on an array of strings: \<open>undefined\<close> past the end.\<close>

definition element :: "string list \<Rightarrow> nat \<Rightarrow> jsval" where
  "element xs i = (if i < length xs then Str (xs ! i) else Undefined)"

text \<open>\<open>xs.join(sep)\<close>\<close>

fun join_with :: "string \<Rightarrow> string list \<Rightarrow> string" where
  "join_with sep [] = []"
| "join_with sep [x] = x"
| "join_with sep (x # y # ys) = x @ sep @ join_with sep (y # ys)"

text \<open>The decimal numeral of a natural number, as a template literal prints an index.\<close>

definition digit_char :: "nat \<Rightarrow> char" where
  "digit_char d = char_of (48 + d)"

function decimal :: "nat \<Rightarrow> string" where
  "decimal n = (if n < 10 then [digit_char n] else decimal (n div 10) @ [digit_char (n mod 10)])"
  by pat_completeness auto
termination
  by (relation "measure id") auto

text \<open>
  A JavaScript number, as far as \<open>parseInt\<close> makes one: \<open>NaN\<close>, a finite integer
  with its sign (\<open>Finite True 0\<close> is \<open>-0\<close>), or plus or minus infinity
  (\<open>Infinite True\<close> is \<open>-Infinity\<close>).
\<close>

datatype number = NaN | Finite bool nat | Infinite bool

text \<open>\<open>x <= k\<close> for a natural number \<open>k\<close>; a comparison with \<open>NaN\<close> is false.\<close>

fun at_most :: "number \<Rightarrow> nat \<Rightarrow> bool" where
  "at_most NaN k = False"
| "at_most (Finite negative m) k = (negative \<or> m \<le> k)"
| "at_most (Infinite negative) k = negative"

text \<open>
  The double nearest to a natural number: a number of at most 53 bits is a double;
  a longer one is rounded to 53 significant bits, a tie to the even neighbour, and the
  result is infinite (\<open>None\<close>) from \<open>2\<^sup>1\<^sup>0\<^sup>2\<^sup>4\<close> on.
\<close>

function bit_length :: "nat \<Rightarrow> nat" where
  "bit_length n = (if n = 0 then 0 else Suc (bit_length (n div 2)))"
  by pat_completeness auto
termination
  by (relation "measure id") auto

definition to_double :: "nat \<Rightarrow> nat option" where
  "to_double n =
     (if bit_length n \<le> 53 then Some n
      else (let e = bit_length n - 53;
                q = n div 2 ^ e;
                r = n mod 2 ^ e;
                m = (if 2 ^ e < 2 * r \<or> (2 * r = 2 ^ e \<and> odd q) then q + 1 else q) * 2 ^ e
            in if m < 2 ^ 1024 then Some m else None))"

text \<open>
  \<open>parseInt(s)\<close> with no radix: leading white space is skipped, a sign is read, a
  prefix \<open>0x\<close> or \<open>0X\<close> selects radix 16, and the longest run of digits of the radix
  is the number, rounded to a double; with no digit the result is \<open>NaN\<close>. A character
  of the model is a code unit below 256; the white space among these is tab, line feed,
  vertical tab, form feed, carriage return, space and the no-break space \<open>U+00A0\<close>.
  (For more than 20 significant decimal digits the language leaves the rounding to the
  implementation; here the rounding is the correct one throughout.)
\<close>

definition is_space :: "char \<Rightarrow> bool" where
  "is_space c =
     (c \<in> {CHR 0x09, CHR 0x0A, CHR 0x0B, CHR 0x0C, CHR 0x0D, CHR '' '', CHR 0xA0})"

definition digit_value :: "nat \<Rightarrow> char \<Rightarrow> nat option" where
  "digit_value radix c =
     (let n = (of_char c :: nat);
          v = (if 48 \<le> n \<and> n \<le> 57 then Some (n - 48)
               else if 97 \<le> n \<and> n \<le> 122 then Some (n - 87)
               else if 65 \<le> n \<and> n \<le> 90 then Some (n - 55)
               else None)
      in case v of Some d \<Rightarrow> if d < radix then Some d else None | None \<Rightarrow> None)"

definition digits_value :: "nat \<Rightarrow> string \<Rightarrow> nat" where
  "digits_value radix z =
     foldl (\<lambda>a c. a * radix + (case digit_value radix c of Some d \<Rightarrow> d | None \<Rightarrow> 0)) 0 z"

definition parseInt_string :: "string \<Rightarrow> number" where
  "parseInt_string s =
     (let s1 = dropWhile is_space s;
          negative = (take 1 s1 = ''-'');
          s2 = (if take 1 s1 = ''-'' \<or> take 1 s1 = ''+'' then drop 1 s1 else s1);
          hex = (take 2 s2 = ''0x'' \<or> take 2 s2 = ''0X'');
          radix = (if hex then 16 else 10);
          s3 = (if hex then drop 2 s2 else s2);
          z = takeWhile (\<lambda>c. digit_value radix c \<noteq> None) s3
      in if z = [] then NaN
         else (case to_double (digits_value radix z) of
                 Some m \<Rightarrow> Finite negative m
               | None \<Rightarrow> Infinite negative))"

definition parseInt :: "jsval \<Rightarrow> number" where
  "parseInt v = parseInt_string (to_string v)"

section \<open>Validation (validation-commands.js)\<close>

text \<open>
  \<^verbatim>\<open>
  async function validateData(type, data) {
    const schemas = { intake: intakeSchema, source: sourceSchema, draft: draftSchema };
    const schema = schemas[type];
    if (!schema) {
      return { isValid: false, errors: [`Unknown validation type: ${type}`] };
    }
    try {
      const { error, value } = schema.validate(data, { abortEarly: false });
      if (error) {
        const errors = error.details.map(detail => detail.message);
        return { isValid: false, errors, validatedData: null };
      }
      return { isValid: true, errors: [], validatedData: value };
    } catch (validationError) {
      return { isValid: false,
               errors: [`Validation failed: ${validationError.message}`],
               validatedData: null };
    }
  }
  \<close>
  The schemas are Joi objects. \<open>schema.validate\<close> is the library's: here it is a
  parameter \<open>joi_validate\<close>, which throws, returns a value, or returns an error whose
  \<open>details\<close> hold one message for each field that failed (\<open>abortEarly: false\<close>).
\<close>

datatype schema_name = IntakeSchema | SourceSchema | DraftSchema

record detail =
  message :: string
  path :: "string list"

datatype 'v joi_result = JoiThrows string | JoiValue 'v | JoiError "detail list"

text \<open>
  The validation type is a string, the name of a schema. \<open>schemas[type]\<close> looks it
  up in an object literal: one of its three own properties, a property inherited from
  \<open>Object.prototype\<close> (a function or an object, truthy, with no \<open>validate\<close>
  method), or \<open>undefined\<close>.
\<close>

datatype property_lookup = NoProperty | InheritedProperty | OwnSchema schema_name

definition object_prototype_properties :: "string list" where
  "object_prototype_properties =
     [''constructor'', ''hasOwnProperty'', ''isPrototypeOf'', ''propertyIsEnumerable'',
      ''toLocaleString'', ''toString'', ''valueOf'', ''__proto__'',
      ''__defineGetter__'', ''__defineSetter__'', ''__lookupGetter__'', ''__lookupSetter__'']"

definition schemas_lookup :: "string \<Rightarrow> property_lookup" where
  "schemas_lookup vtype =
     (if vtype = ''intake'' then OwnSchema IntakeSchema
      else if vtype = ''source'' then OwnSchema SourceSchema
      else if vtype = ''draft'' then OwnSchema DraftSchema
      else if vtype \<in> set object_prototype_properties then InheritedProperty
      else NoProperty)"

text \<open>
  The result object. \<open>validatedData\<close> is absent from the result for an unknown type
  (\<open>NoData\<close>), \<open>null\<close> in an invalid result, and the validated value otherwise.
\<close>

datatype 'v validated = NoData | NullData | Data 'v

record 'v validation_result =
  isValid :: bool
  errors :: "string list"
  validatedData :: "'v validated"

text \<open>
  The body of the \<open>try\<close> block: \<open>Inl\<close> is an exception thrown inside it, by Joi or
  by the call of \<open>schema.validate\<close> on an inherited property, which is no function.
\<close>

definition validate_try ::
  "(schema_name \<Rightarrow> 'd \<Rightarrow> 'v joi_result) \<Rightarrow> property_lookup \<Rightarrow> 'd
    \<Rightarrow> string + 'v validation_result" where
  "validate_try joi_validate schema data =
     (case schema of
        OwnSchema n \<Rightarrow>
          (case joi_validate n data of
             JoiThrows msg \<Rightarrow> Inl msg
           | JoiError details \<Rightarrow>
               Inr \<lparr>isValid = False, errors = map message details, validatedData = NullData\<rparr>
           | JoiValue v \<Rightarrow> Inr \<lparr>isValid = True, errors = [], validatedData = Data v\<rparr>)
      | _ \<Rightarrow> Inl ''schema.validate is not a function'')"

text \<open>
  \<open>validateData\<close>: \<open>Inr\<close> is the value the returned promise resolves to, \<open>Inl\<close> an
  exception that leaves the function (a rejected promise).
\<close>

definition validateData ::
  "(schema_name \<Rightarrow> 'd \<Rightarrow> 'v joi_result) \<Rightarrow> string \<Rightarrow> 'd
    \<Rightarrow> string + 'v validation_result" where
  "validateData joi_validate vtype data =
     (case schemas_lookup vtype of
        NoProperty \<Rightarrow>
          Inr \<lparr>isValid = False, errors = [''Unknown validation type: '' @ vtype],
               validatedData = NoData\<rparr>
      | schema \<Rightarrow>
          (case validate_try joi_validate schema data of
             Inr result \<Rightarrow> Inr result
           | Inl msg \<Rightarrow>
               Inr \<lparr>isValid = False, errors = [''Validation failed: '' @ msg],
                    validatedData = NullData\<rparr>))"

section \<open>Session state (intake.js)\<close>

text \<open>
  What \<open>processDraft\<close> returns, \<open>{content, bibliography, plagiarismScore, driveLink,
  filename}\<close>, and what it stores as \<open>ctx.session.lastDraft\<close>: the same with \<open>topic\<close>,
  \<open>format\<close> and \<open>length\<close>. A score is a JavaScript number: the rational it stands for.
\<close>

record draft_result =
  draft_content :: string
  draft_bibliography :: string
  draft_plagiarismScore :: rat
  draft_driveLink :: "string option"
  draft_filename :: string

record draft = draft_result +
  draft_topic :: string
  draft_format :: string
  draft_length :: nat

text \<open>
  \<open>ctx.session.pendingSources\<close> and \<open>ctx.session.approvedSources\<close> hold arrays, and
  \<open>approve_all_sources\<close> stores the pending array itself as the approved one
  (\<open>ctx.session.approvedSources = ctx.session.pendingSources || []\<close>). From then on a
  \<open>push\<close> to the approved sources changes the pending sources too, until one of the two
  properties is assigned a new array. No other array of the session is shared. The two
  properties are therefore modelled together:
  \<^item> \<open>Separate p a\<close>: \<open>pendingSources\<close> is \<open>p\<close> (\<open>None\<close>: undefined) and
    \<open>approvedSources\<close> is another array, \<open>a\<close>;
  \<^item> \<open>Shared p\<close>: both properties refer to one array \<open>p\<close>.
\<close>

datatype source_arrays =
    Separate "source list option" "source list"
  | Shared "source list"

fun pendingSources_of :: "source_arrays \<Rightarrow> source list option" where
  "pendingSources_of (Separate p a) = p"
| "pendingSources_of (Shared p) = Some p"

fun approvedSources_of :: "source_arrays \<Rightarrow> source list" where
  "approvedSources_of (Separate p a) = a"
| "approvedSources_of (Shared p) = p"

text \<open>\<open>ctx.session.pendingSources = new_array\<close>\<close>

fun assign_pending :: "source list \<Rightarrow> source_arrays \<Rightarrow> source_arrays" where
  "assign_pending new (Separate p a) = Separate (Some new) a"
| "assign_pending new (Shared p) = Separate (Some new) p"

text \<open>\<open>ctx.session.approvedSources = new_array\<close>\<close>

fun assign_approved :: "source list \<Rightarrow> source_arrays \<Rightarrow> source_arrays" where
  "assign_approved new (Separate p a) = Separate p new"
| "assign_approved new (Shared p) = Separate (Some p) new"

text \<open>\<open>ctx.session.approvedSources = ctx.session.pendingSources || []\<close> (an array is truthy)\<close>

fun assign_approved_pending :: "source_arrays \<Rightarrow> source_arrays" where
  "assign_approved_pending (Separate None a) = Separate None []"
| "assign_approved_pending (Separate (Some p) a) = Shared p"
| "assign_approved_pending (Shared p) = Shared p"

text \<open>\<open>ctx.session.approvedSources.push(x)\<close>\<close>

fun push_approved :: "source \<Rightarrow> source_arrays \<Rightarrow> source_arrays" where
  "push_approved x (Separate p a) = Separate p (a @ [x])"
| "push_approved x (Shared p) = Shared (p @ [x])"

text \<open>
  The session of one chat, as a handler finds it. Every update passes the middleware
  first, which gives \<open>messages\<close>, \<open>isAggregating\<close> and \<open>approvedSources\<close> their
  defaults \<open>[]\<close>, \<open>false\<close> and \<open>[]\<close> when they are missing; an array and \<open>false\<close> are
  left as they are. These three properties are modelled with their default in the place
  of \<open>undefined\<close>. \<open>ctx.session.chatId\<close> is set by the middleware from the update and
  is the field \<open>chat\<close> of the context below.
\<close>

record session =
  messages :: "string list"
  isAggregating :: bool
  userType :: jsval
  studentId :: jsval
  sourceArrays :: source_arrays
  waitingForRevision :: jsval
  waitingForComment :: jsval
  currentTopic :: jsval
  lastDraft :: "draft option"

definition pendingSources :: "session \<Rightarrow> source list option" where
  "pendingSources s = pendingSources_of (sourceArrays s)"

definition approvedSources :: "session \<Rightarrow> source list" where
  "approvedSources s = approvedSources_of (sourceArrays s)"

text \<open>The session \<open>{}\<close>: every property is missing.\<close>

definition empty_session :: session where
  "empty_session =
     \<lparr>messages = [], isAggregating = False, userType = Undefined, studentId = Undefined,
      sourceArrays = Separate None [], waitingForRevision = Undefined,
      waitingForComment = Undefined, currentTopic = Undefined, lastDraft = None\<rparr>"

section \<open>What a handler does to the outside\<close>

text \<open>
  The replies of the bot, one constructor for each message text of the source, with the
  values the text is built from.
\<close>

datatype reply =
    Welcome
  | ModeSet string
  | RatingThanks jsval
  | AskWhatToImprove
  | AskForFeedback
  | DraftApproved
  | NoFilesAvailable
  | SourceApproved jsval
  | AllSourcesApproved nat
  | SourceSelectionCancelled
  | ApplyingRevision
  | RevisionCancelled
  | WorkflowStarting
  | SourcesFound nat
  | NoSuitableSources
  | WorkflowFailed string
  | AddMoreDetails
  | SessionCancelled
  | CallbackError
  | ProcessingRevision
  | RevisionSuggestions string
  | RevisionError
  | FeedbackThanks
  | FeedbackNotSaved
  | AddedToRequest
  | RequestReceived
  | ProcessingImage
  | ImageProcessed string
  | TranscribingVoice
  | VoiceTranscribed string
  | HistoryNotice
  | HelpText
  | StatusReport
  | ProgressReport
  | YourFiles nat
  | FetchingSources
  | NoSourcesFound
  | SelectSources nat "(string \<times> string) list"
  | RevisionMode
  | OperationCancelled
  | BotError
  | GeneratingDraft
  | DraftGenerated
  | CitationsFormatted
  | PlagiarismRewriting rat
  | PlagiarismPassed
  | DocumentsCreated
  | DraftSummary string string nat rat nat "string option"
  | DraftPreview nat string
  | DraftFailed string

datatype history_entry =
    UserTypeSelected string
  | WorkflowCompleted string nat

text \<open>
  What a handler does besides changing the session, in order:
  \<^item> \<open>Reply\<close>: \<open>ctx.reply\<close>;
  \<^item> \<open>AnswerCbQuery\<close>: \<open>ctx.answerCbQuery()\<close>;
  \<^item> \<open>LogHistory chatId entry tags\<close>: the line that \<open>updateHistory\<close> writes to the
    console;
  \<^item> \<open>LogFeedback chatId rating comment\<close>: the line that \<open>saveFeedback\<close> writes to
    the console;
  \<^item> \<open>AdminAlert\<close>: the message posted to the administrator's chat;
  \<^item> \<open>MonitorError api message\<close>: \<open>monitor.logError(api, error)\<close>;
  \<^item> \<open>MonitorCall api\<close>: \<open>monitor.logCall(api)\<close>.

  Calls to the Telegram API and to the monitoring module are taken to succeed. Other
  console output (of \<open>deliverFiles\<close> and of the \<open>catch\<close> blocks) is not recorded.
\<close>

datatype effect =
    Reply reply
  | AnswerCbQuery
  | LogHistory string history_entry "string list"
  | LogFeedback string number string
  | AdminAlert string string
  | MonitorError string string
  | MonitorCall string

text \<open>
  The context \<open>ctx\<close> of an update: the chat's session, the chat's id (\<open>ctx.chat.id\<close>,
  \<open>ctx.session.chatId\<close>) and, in order, what has been done so far.
\<close>

record ctx =
  session :: session
  chat :: string
  sent :: "effect list"

definition emit :: "effect \<Rightarrow> ctx \<Rightarrow> ctx" where
  "emit e c = c\<lparr>sent := sent c @ [e]\<rparr>"

definition reply :: "reply \<Rightarrow> ctx \<Rightarrow> ctx" where
  "reply r c = emit (Reply r) c"

definition modify :: "(session \<Rightarrow> session) \<Rightarrow> ctx \<Rightarrow> ctx" where
  "modify f c = c\<lparr>session := f (session c)\<rparr>"

section \<open>The remote services\<close>

text \<open>
  What the plagiarism request comes back with: the request fails (network error,
  timeout, an HTTP error status), or a response arrives, with the score of the provider
  \<open>originalityai\<close> or without a usable one (the provider or its score is missing, or
  the score is \<open>null\<close>).
\<close>

datatype plagiarism_response = RequestFailed string | Responded "rat option"

text \<open>
  Each remote service is a function of the request it is sent; \<open>Inl\<close> is a failure
  with its message.
  \<^item> \<open>groq_draft topic sources format length\<close>: the chat completion \<open>generateDraft\<close>
    asks for, its prompt built from these four.
  \<^item> \<open>zotero_bib key format\<close>: the formatted entry of one Zotero item.
  \<^item> \<open>plagiarism_api text\<close>: Eden AI's plagiarism detection.
  \<^item> \<open>write_document content bibliography topic\<close>: \<open>createWordDocument\<close>, which
    writes a file named after the topic and the clock and returns
    \<open>(filename, filepath)\<close>.
  \<^item> \<open>drive_upload filepath filename studentId\<close>: \<open>uploadToGoogleDrive\<close>, which
    catches every error and returns the link or \<open>null\<close>.
  \<^item> \<open>admin_chat_id\<close>: the configured \<open>ADMIN_CHAT_ID\<close>, if any.
  \<^item> \<open>process_sources topic chatId\<close>: \<open>processSources\<close>, the search for sources.
  \<^item> \<open>groq_revision text\<close>: the chat completion for a revision request.
  \<^item> \<open>ocr fileId\<close>: \<open>performOCR\<close> on the photo, which returns the text read or
    throws when both engines fail.
  \<^item> \<open>transcribe fileId\<close>: \<open>transcribeVoice\<close>, which catches every error and
    returns a text.
\<close>

record services =
  groq_draft :: "string \<Rightarrow> source list \<Rightarrow> string \<Rightarrow> nat \<Rightarrow> string + string"
  zotero_bib :: "string \<Rightarrow> string \<Rightarrow> string + string"
  plagiarism_api :: "string \<Rightarrow> plagiarism_response"
  write_document :: "string \<Rightarrow> string \<Rightarrow> string \<Rightarrow> string + string \<times> string"
  drive_upload :: "string \<Rightarrow> string \<Rightarrow> string \<Rightarrow> string option"
  admin_chat_id :: "string option"
  process_sources :: "string \<Rightarrow> string \<Rightarrow> string + source list"
  groq_revision :: "string \<Rightarrow> string + string"
  ocr :: "string \<Rightarrow> string + string"
  transcribe :: "string \<Rightarrow> string"

section \<open>The draft pipeline (draft-generation.js)\<close>

text \<open>
  \<open>generateDraft\<close> returns the completion's text, or throws
  \<open>new Error(`Draft generation failed: ${error.message}`)\<close>.
\<close>

definition generateDraft ::
  "services \<Rightarrow> string \<Rightarrow> source list \<Rightarrow> string \<Rightarrow> nat \<Rightarrow> string + string" where
  "generateDraft svc topic sources format len =
     (case groq_draft svc topic sources format len of
        Inr content \<Rightarrow> Inr content
      | Inl msg \<Rightarrow> Inl (''Draft generation failed: '' @ msg))"

text \<open>
  \<open>formatCitations\<close>: for each source with a truthy \<open>zoteroKey\<close>, the entry Zotero
  formats and a newline, or on an error \<open>`${source.title}. DOI: ${source.doi}\n`\<close>.
\<close>

definition citation :: "services \<Rightarrow> string \<Rightarrow> source \<Rightarrow> string" where
  "citation svc format s =
     (if truthy (zoteroKey s)
      then (case zotero_bib svc (to_string (zoteroKey s)) format of
              Inr bib \<Rightarrow> bib @ [CHR 0x0A]
            | Inl msg \<Rightarrow>
                to_string (title s) @ ''. DOI: '' @ to_string (doi s) @ [CHR 0x0A])
      else [])"

definition formatCitations :: "services \<Rightarrow> source list \<Rightarrow> string \<Rightarrow> string" where
  "formatCitations svc sources format = concat (map (citation svc format) sources)"

text \<open>
  \<^verbatim>\<open>
  async function checkPlagiarism(content) {
    try {
      const response = await axios.post('https://api.edenai.run/v2/text/plagiarism_detection', {
        text: content.substring(0, 5000), // Limit for free tier
        providers: 'originalityai'
      }, { headers: ..., timeout: 30000 });
      return response.data.originalityai?.score || 0;
    } catch (error) {
      console.error('Plagiarism check error:', error.message);
      return 0; // Return 0 if check fails
    }
  }
  \<close>
\<close>

definition checkPlagiarism :: "services \<Rightarrow> string \<Rightarrow> rat" where
  "checkPlagiarism svc content =
     (case plagiarism_api svc (take 5000 content) of
        Responded (Some score) \<Rightarrow> score
      | Responded None \<Rightarrow> 0
      | RequestFailed msg \<Rightarrow> 0)"

definition createWordDocument ::
  "services \<Rightarrow> string \<Rightarrow> string \<Rightarrow> string \<Rightarrow> string + string \<times> string" where
  "createWordDocument svc content bibliography topic =
     write_document svc content bibliography topic"

text \<open>\<open>uploadToGoogleDrive(filepath, filename, studentId = 'guest')\<close>\<close>

definition uploadToGoogleDrive ::
  "services \<Rightarrow> string \<Rightarrow> string \<Rightarrow> jsval \<Rightarrow> string option" where
  "uploadToGoogleDrive svc filepath filename student =
     drive_upload svc filepath filename
       (case student of Undefined \<Rightarrow> ''guest'' | v \<Rightarrow> to_string v)"

text \<open>
  The threshold of the quality gate, \<open>plagiarismScore > 0.1\<close>: the literal \<open>0.1\<close> is
  the double nearest to one tenth, \<open>3602879701896397 / 2\<^sup>5\<^sup>5\<close>.
\<close>

definition plagiarism_threshold :: rat where
  "plagiarism_threshold = 3602879701896397 / 36028797018963968"

text \<open>
  The \<open>catch\<close> block of \<open>processDraft\<close>: it tells the user, alerts the administrator
  when one is configured, and throws the error again.
  \<^verbatim>\<open>
    await ctx.reply(`Draft generation failed: ${error.message}`);
    if (ADMIN_CHAT_ID) {
      await axios.post(`https://api.telegram.org/bot${TELEGRAM_TOKEN}/sendMessage`, {
        chat_id: ADMIN_CHAT_ID,
        text: `Draft generation failed for ${topic}: ${error.message}`
      });
    }
    throw error;
  \<close>
\<close>

definition draft_failed ::
  "services \<Rightarrow> string \<Rightarrow> string \<Rightarrow> ctx \<Rightarrow> (string + draft_result) \<times> ctx" where
  "draft_failed svc topic msg c =
     (let c1 = reply (DraftFailed msg) c;
          c2 = (case admin_chat_id svc of
                  Some admin \<Rightarrow>
                    emit (AdminAlert admin
                            (''Draft generation failed for '' @ topic @ '': '' @ msg)) c1
                | None \<Rightarrow> c1)
      in (Inl msg, c2))"

text \<open>
  \<^verbatim>\<open>
    for (let i = 0; i < Math.min(chunks.length, 2); i++) {
      await ctx.reply(`Preview ${i + 1}:\n${chunks[i]}`, { parse_mode: 'Markdown' });
    }
  \<close>
\<close>

definition send_previews :: "string list \<Rightarrow> ctx \<Rightarrow> ctx" where
  "send_previews chunks c =
     foldl (\<lambda>c' i. reply (DraftPreview (i + 1) (chunks ! i)) c') c
       [0 ..< min (length chunks) 2]"

text \<open>
  \<^verbatim>\<open>
  async function processDraft(ctx, topic, sources, format = 'APA', length = 5) {
    try {
      await ctx.reply('Generating draft... 0%');
      const content = await generateDraft(topic, sources, format, length);
      await ctx.reply('Draft generated. Formatting citations... 25%');
      const bibliography = await formatCitations(sources, format);
      await ctx.reply('Citations formatted. Checking plagiarism... 50%');
      const plagiarismScore = await checkPlagiarism(content);
      if (plagiarismScore > 0.1) {
        await ctx.reply(`Plagiarism score: ${(plagiarismScore * 100).toFixed(1)}%. Rewriting...`);
        // Recursive retry with modified prompt
        return processDraft(ctx, `${topic} (rewrite to be more original)`, sources, format, length);
      }
      await ctx.reply('Plagiarism check passed. Creating documents... 75%');
      const { filename, filepath } = await createWordDocument(content, bibliography, topic);
      const driveLink = await uploadToGoogleDrive(filepath, filename, ctx.session?.studentId);
      await ctx.reply('Documents created. Preparing delivery... 90%');
      ...
      await ctx.reply(summary, { reply_markup: keyboard, parse_mode: 'Markdown' });
      const chunks = chunkContent(content.substring(0, 8000));
      for (...) { await ctx.reply(...preview...); }
      ctx.session.lastDraft = { topic, content, bibliography, format, length,
                                plagiarismScore, driveLink, filename };
      return { content, bibliography, plagiarismScore, driveLink, filename };
    } catch (error) {
      ...
      throw error;
    }
  }
  \<close>
  The result is \<open>None\<close> when the call never returns, \<open>Some (Inr result, ctx)\<close> when it
  returns \<open>result\<close>, and \<open>Some (Inl message, ctx)\<close> when it throws. The retry is a tail
  call: its promise is returned without \<open>await\<close>, so the \<open>catch\<close> block of the caller
  does not see a failure of the retry, which has been reported by the retry's own.
\<close>

partial_function (option) processDraft ::
  "services \<Rightarrow> ctx \<Rightarrow> string \<Rightarrow> source list \<Rightarrow> string \<Rightarrow> nat
    \<Rightarrow> ((string + draft_result) \<times> ctx) option" where
  "processDraft svc c topic sources format len =
     (let c1 = reply GeneratingDraft c in
      case generateDraft svc topic sources format len of
        Inl msg \<Rightarrow> Some (draft_failed svc topic msg c1)
      | Inr content \<Rightarrow>
         (let c2 = reply DraftGenerated c1;
              bibliography = formatCitations svc sources format;
              c3 = reply CitationsFormatted c2;
              plagiarismScore = checkPlagiarism svc content
          in if plagiarismScore > plagiarism_threshold
             then processDraft svc (reply (PlagiarismRewriting plagiarismScore) c3)
                    (topic @ '' (rewrite to be more original)'') sources format len
             else
              (let c4 = reply PlagiarismPassed c3 in
               case createWordDocument svc content bibliography topic of
                 Inl msg \<Rightarrow> Some (draft_failed svc topic msg c4)
               | Inr (filename, filepath) \<Rightarrow>
                  (let driveLink = uploadToGoogleDrive svc filepath filename
                                     (studentId (session c4));
                       c5 = reply DocumentsCreated c4;
                       c6 = reply (DraftSummary topic format len plagiarismScore
                                     (length sources) driveLink) c5
                   in case chunkContent (take 8000 content) 4000 of
                        None \<Rightarrow> None
                      | Some chunks \<Rightarrow>
                         (let c7 = send_previews chunks c6;
                              result = \<lparr>draft_content = content,
                                        draft_bibliography = bibliography,
                                        draft_plagiarismScore = plagiarismScore,
                                        draft_driveLink = driveLink,
                                        draft_filename = filename\<rparr>;
                              c8 = modify (\<lambda>s. s\<lparr>lastDraft :=
                                     Some (draft_result.extend result
                                            \<lparr>draft_topic = topic, draft_format = format,
                                             draft_length = len\<rparr>)\<rparr>) c7
                          in Some (Inr result, c8))))))"

declare processDraft.simps [code]

section \<open>Feedback and history (delivery-monitoring.js, validation-commands.js)\<close>

text \<open>
  \<^verbatim>\<open>
  async function saveFeedback(chatId, rating, comment = '') {
    try {
      const feedbackData = { timestamp: ..., chatId: chatId.toString(), rating, comment };
      console.log(`Feedback saved: ${rating} from ${chatId}${comment ? ` - "${comment}"` : ''}`);
      // In a real implementation, this would save to Google Sheets
      return true;
    } catch (error) { ...; return false; }
  }
  \<close>
  The function writes one line to the console and returns \<open>true\<close>; the object
  \<open>feedbackData\<close> is built and dropped. \<open>updateHistory(chatId, newHistory, tags = [])\<close>
  does the same with its arguments.
\<close>

definition saveFeedback ::
  "string \<Rightarrow> number \<Rightarrow> string \<Rightarrow> ctx \<Rightarrow> bool \<times> ctx" where
  "saveFeedback chatId rating comment c =
     (True, emit (LogFeedback chatId rating comment) c)"

definition updateHistory ::
  "string \<Rightarrow> history_entry \<Rightarrow> string list \<Rightarrow> ctx \<Rightarrow> bool \<times> ctx" where
  "updateHistory chatId newHistory tags c =
     (True, emit (LogHistory chatId newHistory tags) c)"

section \<open>The handlers of the bot (intake.js)\<close>

text \<open>
  The middleware that runs before every handler. Of its defaults
  \<^verbatim>\<open>
    ctx.session.messages = ctx.session.messages || [];
    ctx.session.isAggregating = ctx.session.isAggregating || false;
    ctx.session.userType = ctx.session.userType || 'guest';
    ctx.session.approvedSources = ctx.session.approvedSources || [];
  \<close>
  the first, second and fourth are built into the session record.
\<close>

definition middleware :: "ctx \<Rightarrow> ctx" where
  "middleware c = modify (\<lambda>s. s\<lparr>userType := js_or (userType s) (Str ''guest'')\<rparr>) c"

text \<open>\<open>bot.start\<close>: the handler of the command \<open>/start\<close> replies with the menu of modes.\<close>

definition command_start :: "ctx \<Rightarrow> ctx" where
  "command_start c = reply Welcome c"

text \<open>
  \<open>xs[index]\<close> for the number \<open>parseInt\<close> returned: the element at an index of the
  array (\<open>-0\<close> is the index 0), \<open>undefined\<close> for every other number.
\<close>

definition array_get :: "'a list \<Rightarrow> number \<Rightarrow> 'a option" where
  "array_get xs index =
     (case index of
        Finite negative i \<Rightarrow>
          if (\<not> negative \<or> i = 0) \<and> i < length xs then Some (xs ! i) else None
      | _ \<Rightarrow> None)"

text \<open>
  The branches of the \<open>callback_query\<close> handler, each with the callback data.
  \<^verbatim>\<open>
    if (data.startsWith('type_')) {
      const userType = data.replace('type_', '');
      ctx.session.userType = userType;
      ctx.session.studentId = `${userType}_${ctx.session.chatId}`;
      await updateHistory(ctx.session.chatId,
        { action: 'user_type_selected', userType: userType }, ['setup']);
      await ctx.reply(`Mode set to **${userType}**. ...`);
  \<close>
  \<open>replace\<close> removes the first occurrence of \<open>type_\<close>, which is the prefix.
\<close>

definition cb_type :: "string \<Rightarrow> ctx \<Rightarrow> ctx" where
  "cb_type data c =
     (let picked = drop 5 data;
          c1 = modify (\<lambda>s. s\<lparr>userType := Str picked,
                                studentId := Str (picked @ ''_'' @ chat c)\<rparr>) c;
          c2 = snd (updateHistory (chat c1) (UserTypeSelected picked) [''setup''] c1)
      in reply (ModeSet picked) c2)"

text \<open>
  \<^verbatim>\<open>
    } else if (data.startsWith('rate_')) {
      const [, draftId, rating] = data.split('_');
      const { saveFeedback } = require('./delivery-monitoring');
      await saveFeedback(ctx.chat.id, parseInt(rating));
      await ctx.reply(`Thank you for rating us ${rating}! ...`);
      // Ask for additional comment on low ratings
      if (parseInt(rating) <= 3) {
        ctx.session.waitingForComment = draftId;
        await ctx.reply('We value your feedback! Please share what we can improve:');
      }
  \<close>
\<close>

definition cb_rate :: "string \<Rightarrow> ctx \<Rightarrow> ctx" where
  "cb_rate data c =
     (let parts = split_on (CHR ''_'') data;
          draftId = element parts 1;
          rating = element parts 2;
          c1 = snd (saveFeedback (chat c) (parseInt rating) [] c);
          c2 = reply (RatingThanks rating) c1
      in if at_most (parseInt rating) 3
         then reply AskWhatToImprove
                (modify (\<lambda>s. s\<lparr>waitingForComment := draftId\<rparr>) c2)
         else c2)"

text \<open>
  \<^verbatim>\<open>
    } else if (data.startsWith('comment_')) {
      const draftId = data.replace('comment_', '');
      ctx.session.waitingForComment = draftId;
      await ctx.reply('Please share your feedback about the draft:');
  \<close>
\<close>

definition cb_comment :: "string \<Rightarrow> ctx \<Rightarrow> ctx" where
  "cb_comment data c =
     (let draftId = drop 8 data
      in reply AskForFeedback (modify (\<lambda>s. s\<lparr>waitingForComment := Str draftId\<rparr>) c))"

text \<open>
  \<open>approve_draft\<close>: the handler replies that the draft is approved; it then calls
  \<open>collectFeedback\<close>, which builds the rating keyboard
  (\<open>rate_${draftId}_1\<close> to \<open>rate_${draftId}_5\<close> and \<open>comment_${draftId}\<close>) and returns
  it, and drops the result.
  \<open>download_files\<close>: with a last draft, \<open>deliverFiles\<close> builds a message that the
  handler does not send; without one the handler replies that there are no files.
\<close>

definition cb_download_files :: "ctx \<Rightarrow> ctx" where
  "cb_download_files c =
     (case lastDraft (session c) of
        Some d \<Rightarrow> c
      | None \<Rightarrow> reply NoFilesAvailable c)"

text \<open>
  \<^verbatim>\<open>
    } else if (data.startsWith('approve_source_')) {
      const index = parseInt(data.replace('approve_source_', ''));
      const source = ctx.session.pendingSources?.[index];
      if (source) {
        ctx.session.approvedSources = ctx.session.approvedSources || [];
        ctx.session.approvedSources.push(source);
        await ctx.reply(`Approved: ${source.title}`);
      }
  \<close>
  A source is an object, which is truthy; \<open>approvedSources\<close> is an array here, so the
  assignment with \<open>||\<close> leaves it as it is.
\<close>

definition cb_approve_source :: "string \<Rightarrow> ctx \<Rightarrow> ctx" where
  "cb_approve_source data c =
     (let index = parseInt (Str (drop 15 data));
          found = (case pendingSources (session c) of
                     None \<Rightarrow> None
                   | Some pending \<Rightarrow> array_get pending index)
      in case found of
           None \<Rightarrow> c
         | Some source \<Rightarrow>
             reply (SourceApproved (title source))
               (modify (\<lambda>s. s\<lparr>sourceArrays := push_approved source (sourceArrays s)\<rparr>) c))"

text \<open>
  \<^verbatim>\<open>
    } else if (data === 'approve_all_sources') {
      ctx.session.approvedSources = ctx.session.pendingSources || [];
      await ctx.reply(`All ${ctx.session.approvedSources.length} sources approved!`);
    } else if (data === 'cancel_sources') {
      ctx.session.pendingSources = [];
      await ctx.reply('Source selection cancelled.');
  \<close>
\<close>

definition cb_approve_all_sources :: "ctx \<Rightarrow> ctx" where
  "cb_approve_all_sources c =
     (let c1 = modify (\<lambda>s. s\<lparr>sourceArrays := assign_approved_pending (sourceArrays s)\<rparr>) c
      in reply (AllSourcesApproved (length (approvedSources (session c1)))) c1)"

definition cb_cancel_sources :: "ctx \<Rightarrow> ctx" where
  "cb_cancel_sources c =
     reply SourceSelectionCancelled
       (modify (\<lambda>s. s\<lparr>sourceArrays := assign_pending [] (sourceArrays s)\<rparr>) c)"

text \<open>
  \<open>confirm_and_process\<close>: the whole workflow, in a \<open>try\<close> block of its own.
  \<^verbatim>\<open>
      const topic = ctx.session.messages.join(' ');
      await ctx.reply('Starting Academic Assistant Workflow ...');
      try {
        const sources = await processSources(topic, ctx.session.chatId);
        ctx.session.approvedSources = sources;
        if (sources.length > 0) {
          await ctx.reply(`Found ${sources.length} sources! Now generating draft...`);
          const draft = await processDraft(ctx, topic, sources, 'APA', 5);
          await updateHistory(ctx.session.chatId, { action: 'workflow_completed', topic,
            sources: sources.length, draft: draft ? 'generated' : 'failed' },
            ['workflow', 'academic']);
        } else {
          await ctx.reply('No suitable sources found. ...');
        }
      } catch (error) {
        await ctx.reply(`Workflow failed: ${error.message} ...`);
        monitor.logError('workflow', error);
      }
      ctx.session.messages = [];
      ctx.session.isAggregating = false;
  \<close>
\<close>

definition workflow_failed :: "string \<Rightarrow> ctx \<Rightarrow> ctx" where
  "workflow_failed msg c = emit (MonitorError ''workflow'' msg) (reply (WorkflowFailed msg) c)"

definition cb_confirm_and_process :: "services \<Rightarrow> ctx \<Rightarrow> ctx option" where
  "cb_confirm_and_process svc c =
     (let topic = join_with '' '' (messages (session c));
          c1 = reply WorkflowStarting c;
          outcome =
            (case process_sources svc topic (chat c1) of
               Inl msg \<Rightarrow> Some (workflow_failed msg c1)
             | Inr sources \<Rightarrow>
                (let c2 = modify (\<lambda>s. s\<lparr>sourceArrays :=
                                     assign_approved sources (sourceArrays s)\<rparr>) c1
                 in if length sources > 0
                    then (case processDraft svc (reply (SourcesFound (length sources)) c2)
                                 topic sources ''APA'' 5 of
                            None \<Rightarrow> None
                          | Some (Inl msg, c3) \<Rightarrow> Some (workflow_failed msg c3)
                          | Some (Inr draft, c3) \<Rightarrow>
                              Some (snd (updateHistory (chat c3)
                                          (WorkflowCompleted topic (length sources))
                                          [''workflow'', ''academic''] c3)))
                    else Some (reply NoSuitableSources c2)))
      in map_option (modify (\<lambda>s. s\<lparr>messages := [], isAggregating := False\<rparr>)) outcome)"

text \<open>
  The \<open>callback_query\<close> handler for a query that carries data: the branches in the
  order of the source, then \<open>ctx.answerCbQuery()\<close>. Nothing in a branch throws when
  the calls to Telegram succeed. The result is \<open>None\<close> when the handler never
  returns.
  \<^verbatim>\<open>
    } else if (data === 'cancel') {
      ctx.session = {};
      await ctx.reply('Session cancelled.');
    }
  \<close>
\<close>

definition on_callback_query :: "services \<Rightarrow> string \<Rightarrow> ctx \<Rightarrow> ctx option" where
  "on_callback_query svc data c =
     map_option (emit AnswerCbQuery)
       (if startsWith data ''type_'' then Some (cb_type data c)
        else if startsWith data ''rate_'' then Some (cb_rate data c)
        else if startsWith data ''comment_'' then Some (cb_comment data c)
        else if data = ''approve_draft'' then Some (reply DraftApproved c)
        else if data = ''download_files'' then Some (cb_download_files c)
        else if startsWith data ''approve_source_'' then Some (cb_approve_source data c)
        else if data = ''approve_all_sources'' then Some (cb_approve_all_sources c)
        else if data = ''cancel_sources'' then Some (cb_cancel_sources c)
        else if data = ''apply_revision'' then Some (reply ApplyingRevision c)
        else if data = ''cancel_revision'' then Some (reply RevisionCancelled c)
        else if data = ''confirm_and_process'' then cb_confirm_and_process svc c
        else if data = ''add_more'' then Some (reply AddMoreDetails c)
        else if data = ''cancel''
          then Some (reply SessionCancelled (modify (\<lambda>s. empty_session) c))
        else Some c)"

text \<open>
  A query without data (the button of a game): \<open>data.startsWith\<close> throws inside the
  \<open>try\<close> block, whose \<open>catch\<close> replies that the request could not be processed.
\<close>

definition on_callback_without_data :: "ctx \<Rightarrow> ctx" where
  "on_callback_without_data c = emit AnswerCbQuery (reply CallbackError c)"

text \<open>
  The handler of text messages.
  \<^verbatim>\<open>
  bot.on('text', async (ctx) => {
    // Handle revision requests
    if (ctx.session?.waitingForRevision) {
      const revision = ctx.message.text;
      await ctx.reply('Processing revision request...');
      try {
        const response = await axios.post(...);
        const suggestion = response.data.choices[0].message.content;
        await ctx.reply(`Revision Suggestions: ${suggestion} ...`, ...);
        ctx.session.waitingForRevision = false;
      } catch (error) {
        await ctx.reply('Error processing revision. Please try again.');
        ctx.session.waitingForRevision = false;
      }
      return;
    }
    // Handle comment input for feedback
    if (ctx.session?.waitingForComment) {
      const comment = ctx.message.text;
      const { saveFeedback } = require('./delivery-monitoring');
      const success = await saveFeedback(ctx.chat.id, 0, comment);
      if (success) {
        await ctx.reply('Thank you for your feedback! We appreciate your input.');
      } else {
        await ctx.reply('Error saving feedback. Please try again.');
      }
      delete ctx.session.waitingForComment;
      return;
    }
    // Comment: Aggregate multi-messages for full request.
    if (ctx.session.isAggregating) {
      ctx.session.messages.push(ctx.message.text);
      ctx.reply('Added. Send "done" to finish, or continue adding more.');
    } else {
      ctx.session.isAggregating = true;
      ctx.session.messages = [ctx.message.text];
      ctx.session.currentTopic = ctx.message.text; // Store for source retrieval
      ...
      ctx.reply('Request received! ...', { reply_markup: keyboard });
    }
  });
  \<close>
\<close>

definition on_text :: "services \<Rightarrow> string \<Rightarrow> ctx \<Rightarrow> ctx" where
  "on_text svc body c =
     (if truthy (waitingForRevision (session c)) then
        (let c1 = reply ProcessingRevision c;
             c2 = (case groq_revision svc body of
                     Inr suggestion \<Rightarrow> reply (RevisionSuggestions suggestion) c1
                   | Inl msg \<Rightarrow> reply RevisionError c1)
         in modify (\<lambda>s. s\<lparr>waitingForRevision := Bool False\<rparr>) c2)
      else if truthy (waitingForComment (session c)) then
        (let (success, c1) = saveFeedback (chat c) (Finite False 0) body c;
             c2 = (if success then reply FeedbackThanks c1 else reply FeedbackNotSaved c1)
         in modify (\<lambda>s. s\<lparr>waitingForComment := Undefined\<rparr>) c2)
      else if isAggregating (session c) then
        reply AddedToRequest (modify (\<lambda>s. s\<lparr>messages := messages s @ [body]\<rparr>) c)
      else
        reply RequestReceived
          (modify (\<lambda>s. s\<lparr>isAggregating := True, messages := [body],
                          currentTopic := Str body\<rparr>) c))"

text \<open>
  The handlers of photos and voice notes.
  \<^verbatim>\<open>
  bot.on('photo', async (ctx) => {
    ...
    ctx.reply('Processing image...');
    const ocrText = await performOCR(imageUrl);
    ctx.session.messages = ctx.session.messages || [];
    ctx.session.messages.push(`[OCR from image]: ${ocrText}`);
    ctx.reply(`Image processed: ${ocrText.substring(0, 100)}... Added to request.`);
  });
  bot.on('voice', async (ctx) => {
    const voiceId = ctx.message.voice.file_id;
    ctx.reply('Transcribing voice...');
    const transcription = await transcribeVoice(voiceId);
    ctx.session.messages = ctx.session.messages || [];
    ctx.session.messages.push(`[Voice transcription]: ${transcription}`);
    ctx.reply(`Voice transcribed: ${transcription.substring(0, 100)}... Added.`);
  });
  \<close>
  An error that a handler throws reaches \<open>bot.catch\<close>, which replies that an error
  occurred.
\<close>

definition on_photo :: "services \<Rightarrow> string \<Rightarrow> ctx \<Rightarrow> ctx" where
  "on_photo svc fileId c =
     (let c1 = reply ProcessingImage c
      in case ocr svc fileId of
           Inl msg \<Rightarrow> reply BotError c1
         | Inr ocrText \<Rightarrow>
             reply (ImageProcessed (take 100 ocrText))
               (modify (\<lambda>s. s\<lparr>messages := messages s @ [''[OCR from image]: '' @ ocrText]\<rparr>)
                  c1))"

definition on_voice :: "services \<Rightarrow> string \<Rightarrow> ctx \<Rightarrow> ctx" where
  "on_voice svc fileId c =
     (let c1 = reply TranscribingVoice c;
          transcription = transcribe svc fileId
      in reply (VoiceTranscribed (take 100 transcription))
           (modify (\<lambda>s. s\<lparr>messages :=
                            messages s @ [''[Voice transcription]: '' @ transcription]\<rparr>) c1))"

text \<open>
  The commands \<open>/history\<close>, \<open>/help\<close>, \<open>/status\<close>, \<open>/report\<close> and \<open>/files\<close>.
  Their handlers reply and leave the session as it is:
  \<^item> \<open>/history\<close> replies with a notice;
  \<^item> \<open>/help\<close> and \<open>/status\<close> reply with their text and call
    \<open>monitor.logCall('telegram')\<close>;
  \<^item> \<open>/report\<close> replies with what \<open>generateReport\<close> returns (it finds no draft,
    the history being empty in this version);
  \<^item> \<open>/files\<close> replies with the list that \<open>listUserFiles\<close> returns, one sample
    file in this version.
\<close>

definition command_history :: "ctx \<Rightarrow> ctx" where
  "command_history c = reply HistoryNotice c"

definition command_help :: "ctx \<Rightarrow> ctx" where
  "command_help c = emit (MonitorCall ''telegram'') (reply HelpText c)"

definition command_status :: "ctx \<Rightarrow> ctx" where
  "command_status c = emit (MonitorCall ''telegram'') (reply StatusReport c)"

definition command_report :: "ctx \<Rightarrow> ctx" where
  "command_report c = reply ProgressReport c"

definition command_files :: "ctx \<Rightarrow> ctx" where
  "command_files c = reply (YourFiles 1) c"

text \<open>
  The commands \<open>/sources\<close>, \<open>/revise\<close> and \<open>/cancel\<close>.
  \<^verbatim>\<open>
  bot.command('sources', async (ctx) => {
    const topic = ctx.session?.currentTopic || ctx.session?.messages?.join(' ')
                  || 'general research';
    await ctx.reply('Fetching sources...');
    const sources = await processSources(topic, ctx.chat.id);
    if (sources.length === 0) {
      return ctx.reply('No sources found. Try a different topic.');
    }
    const keyboard = { inline_keyboard: sources.slice(0, 5).map((source, i) => [
        { text: `${source.title.substring(0, 40)}...`,
          callback_data: `approve_source_${i}` } ]).concat([[
        { text: 'Approve All', callback_data: 'approve_all_sources' },
        { text: 'Cancel', callback_data: 'cancel_sources' } ]]) };
    ctx.session.pendingSources = sources;
    ctx.session.currentTopic = topic;
    await ctx.reply(`Found ${sources.length} sources. Select to approve:`, ...);
  });
  \<close>
  The keyboard is built before the session is changed: \<open>source.title.substring\<close>
  throws when the title of one of the first five sources is not a string. That error,
  and one that \<open>processSources\<close> throws, reaches \<open>bot.catch\<close>.
\<close>

fun is_string :: "jsval \<Rightarrow> bool" where
  "is_string (Str s) = True"
| "is_string v = False"

definition command_sources :: "services \<Rightarrow> ctx \<Rightarrow> ctx" where
  "command_sources svc c =
     (let topic = to_string (js_or (currentTopic (session c))
                     (js_or (Str (join_with '' '' (messages (session c))))
                            (Str ''general research'')));
          c1 = reply FetchingSources c
      in case process_sources svc topic (chat c1) of
           Inl msg \<Rightarrow> reply BotError c1
         | Inr sources \<Rightarrow>
             if length sources = 0 then reply NoSourcesFound c1
             else if list_ex (\<lambda>s. \<not> is_string (title s)) (take 5 sources)
             then reply BotError c1
             else reply (SelectSources (length sources)
                          (map (\<lambda>i. (take 40 (to_string (title (sources ! i))),
                                      ''approve_source_'' @ decimal i))
                             [0 ..< min (length sources) 5]))
                    (modify (\<lambda>s. s\<lparr>sourceArrays := assign_pending sources (sourceArrays s),
                                    currentTopic := Str topic\<rparr>) c1))"

text \<open>
  \<^verbatim>\<open>
  bot.command('revise', async (ctx) => {
    ctx.session.waitingForRevision = true;
    await ctx.reply('**Revision Mode** ...', { parse_mode: 'Markdown' });
  });
  \<close>
\<close>

definition command_revise :: "ctx \<Rightarrow> ctx" where
  "command_revise c =
     reply RevisionMode (modify (\<lambda>s. s\<lparr>waitingForRevision := Bool True\<rparr>) c)"

text \<open>
  \<^verbatim>\<open>
  bot.command('cancel', async (ctx) => {
    // Reset session state
    ctx.session.isAggregating = false;
    ctx.session.messages = [];
    ctx.session.waitingForRevision = false;
    ctx.session.waitingForComment = false;
    ctx.session.pendingSources = [];
    await ctx.reply('**Operation Cancelled** All pending operations have been cancelled. ...');
  });
  \<close>
\<close>

definition command_cancel :: "ctx \<Rightarrow> ctx" where
  "command_cancel c =
     reply OperationCancelled
       (modify (\<lambda>s. s\<lparr>isAggregating := False, messages := [],
                       waitingForRevision := Bool False, waitingForComment := Bool False,
                       sourceArrays := assign_pending [] (sourceArrays s)\<rparr>) c)"

section \<open>Which handler an update reaches (intake.js)\<close>

text \<open>
  An update of a chat, as Telegram delivers it:
  \<^item> a text message, with the command it begins with when its first entity is a
    command for this bot (\<open>/cancel\<close> is the text \<open>/cancel\<close> with the command
    \<open>cancel\<close>);
  \<^item> a callback query, with the data of the button pressed, if it has any;
  \<^item> a photo or a voice note, with the id of the file;
  \<^item> any other update.
\<close>

datatype update =
    TextMessage string "string option"
  | CallbackQuery "string option"
  | Photo string
  | Voice string
  | OtherUpdate

text \<open>
  The handlers, in the order in which the source registers them on the bot, after the
  session and the middleware above:
  \<^verbatim>\<open>
  bot.start(...)                    // line 136
  bot.on('callback_query', ...)     // line 150
  bot.on('text', ...)               // line 294
  bot.on('photo', ...)              // line 372
  bot.on('voice', ...)              // line 387
  bot.command('history', ...)       // line 398
  bot.command('help', ...)          // line 404
  bot.command('status', ...)        // line 466
  // Missing command handlers consolidated from other modules
  bot.command('sources', ...)       // line 513
  bot.command('revise', ...)        // line 545
  bot.command('report', ...)        // line 552
  bot.command('files', ...)         // line 565
  bot.command('cancel', ...)        // line 588
  \<close>
\<close>

datatype handler =
    StartCommand
  | OnCallbackQuery
  | OnText
  | OnPhoto
  | OnVoice
  | Command string

definition handlers :: "handler list" where
  "handlers =
     [StartCommand, OnCallbackQuery, OnText, OnPhoto, OnVoice,
      Command ''history'', Command ''help'', Command ''status'', Command ''sources'',
      Command ''revise'', Command ''report'', Command ''files'', Command ''cancel'']"

text \<open>
  The updates a handler is registered for. \<open>bot.on('text')\<close> takes every text
  message, a command or not.
\<close>

fun accepts :: "handler \<Rightarrow> update \<Rightarrow> bool" where
  "accepts StartCommand (TextMessage body command) = (command = Some ''start'')"
| "accepts (Command name) (TextMessage body command) = (command = Some name)"
| "accepts OnText (TextMessage body command) = True"
| "accepts OnCallbackQuery (CallbackQuery data) = True"
| "accepts OnPhoto (Photo fileId) = True"
| "accepts OnVoice (Voice fileId) = True"
| "accepts h u = False"

text \<open>What a handler does with an update it is registered for.\<close>

fun run_handler :: "services \<Rightarrow> handler \<Rightarrow> update \<Rightarrow> ctx \<Rightarrow> ctx option" where
  "run_handler svc StartCommand u c = Some (command_start c)"
| "run_handler svc OnCallbackQuery (CallbackQuery (Some data)) c = on_callback_query svc data c"
| "run_handler svc OnCallbackQuery (CallbackQuery None) c = Some (on_callback_without_data c)"
| "run_handler svc OnText (TextMessage body command) c = Some (on_text svc body c)"
| "run_handler svc OnPhoto (Photo fileId) c = Some (on_photo svc fileId c)"
| "run_handler svc OnVoice (Voice fileId) c = Some (on_voice svc fileId c)"
| "run_handler svc (Command name) u c =
     Some (if name = ''history'' then command_history c
           else if name = ''help'' then command_help c
           else if name = ''status'' then command_status c
           else if name = ''sources'' then command_sources svc c
           else if name = ''revise'' then command_revise c
           else if name = ''report'' then command_report c
           else if name = ''files'' then command_files c
           else if name = ''cancel'' then command_cancel c
           else c)"
| "run_handler svc h u c = Some c"

text \<open>
  Telegraf passes an update through the middleware and then to the handlers in their
  order; a handler that takes the update and does not call \<open>next()\<close> ends the chain.
  No handler of the bot calls \<open>next()\<close>, so an update is handled by the first handler
  registered for it, and by none when there is none.
\<close>

definition on_update :: "services \<Rightarrow> update \<Rightarrow> ctx \<Rightarrow> ctx option" where
  "on_update svc u c =
     (case find (\<lambda>h. accepts h u) handlers of
        None \<Rightarrow> Some (middleware c)
      | Some h \<Rightarrow> run_handler svc h u (middleware c))"

text \<open>
  A chat that has sent nothing yet, and the updates of a chat handled one after the
  other, each with the services as they answer at its time, as long as each handler
  returns.
\<close>

definition new_chat :: "string \<Rightarrow> ctx" where
  "new_chat chatId = \<lparr>session = empty_session, chat = chatId, sent = []\<rparr>"

fun run :: "(services \<times> update) list \<Rightarrow> ctx \<Rightarrow> ctx option" where
  "run [] c = Some c"
| "run ((svc, u) # rest) c =
     (case on_update svc u c of
        None \<Rightarrow> None
      | Some c' \<Rightarrow> run rest c')"


definition press :: "services \<Rightarrow> string \<Rightarrow> services \<times> update" where
  "press svc data = (svc, CallbackQuery (Some data))"

definition says :: "services \<Rightarrow> string \<Rightarrow> services \<times> update" where
  "says svc body = (svc, TextMessage body None)"

section \<open>Example data\<close>

definition paperA :: source where
  "paperA = \<lparr>title = Str ''Crop yields under drought'', authors = [''Lee''],
     year = Some 2021, doi = Str ''10.1/x'', abstract = Undefined, url = Str [],
     zoteroKey = Null\<rparr>"

definition paperB :: source where
  "paperB = \<lparr>title = Str ''Drought and maize'', authors = [''Okoro''],
     year = Some 2022, doi = Str ''10.1/x'', abstract = Undefined, url = Str [],
     zoteroKey = Null\<rparr>"

definition paperC :: source where
  "paperC = \<lparr>title = Str ''Soil carbon'', authors = [''Haas''],
     year = Some 2023, doi = Str ''10.2/y'', abstract = Undefined, url = Str [],
     zoteroKey = Null\<rparr>"

definition paperD :: source where
  "paperD = \<lparr>title = Str ''Irrigation policy'', authors = [''Nguyen''],
     year = Some 2024, doi = Str ''10.3/z'', abstract = Undefined, url = Str [],
     zoteroKey = Null\<rparr>"

text \<open>
  Services that work, but for the plagiarism check, which always answers \<open>check\<close>, and
  the search, which always finds \<open>found\<close>.
\<close>

definition demo_services :: "plagiarism_response \<Rightarrow> source list \<Rightarrow> services" where
  "demo_services check found =
     \<lparr>groq_draft = (\<lambda>topic sources format len. Inr ''# Draft''),
      zotero_bib = (\<lambda>key format. Inl ''offline''),
      plagiarism_api = (\<lambda>text. check),
      write_document = (\<lambda>content bibliography topic. Inr (''draft.txt'', ''/tmp/draft.txt'')),
      drive_upload = (\<lambda>filepath filename student. None),
      admin_chat_id = Some ''1'',
      process_sources = (\<lambda>topic chatId. Inr found),
      groq_revision = (\<lambda>request. Inr ''Shorten the introduction''),
      ocr = (\<lambda>fileId. Inr ''Essay on soil carbon''),
      transcribe = (\<lambda>fileId. ''Essay on soil carbon'')\<rparr>"

definition fresh_ctx :: ctx where
  "fresh_ctx = \<lparr>session = empty_session, chat = ''42'', sent = []\<rparr>"

text \<open>Services that work, with a plagiarism score of 0 and a search that finds \<open>found\<close>.\<close>

definition ok_services :: "source list \<Rightarrow> services" where
  "ok_services found = demo_services (Responded (Some 0)) found"

text \<open>
  A chat whose user has sent a topic, started the workflow, which found the source
  \<open>paperC\<close> and delivered a draft, and has then begun a new request.
\<close>

definition busy_chat :: "(services \<times> update) list" where
  "busy_chat =
     [says (ok_services [paperC]) ''Soil carbon'',
      press (ok_services [paperC]) ''confirm_and_process'',
      says (ok_services [paperC]) ''Climate change impacts on agriculture'']"


text \<open>
  A session in which three sources are pending, as the handler of \<open>/sources\<close> would
  leave it.
\<close>

definition three_pending_ctx :: ctx where
  "three_pending_ctx =
     \<lparr>session = empty_session\<lparr>userType := Str ''guest'',
                                 sourceArrays := Separate (Some [paperA, paperC, paperD]) [],
                                 currentTopic := Str ''Soil carbon''\<rparr>,
      chat = ''42'', sent = []\<rparr>"

section \<open>Predicates used in the statements\<close>


text \<open>
  A session that waits for no revision text and has no pending source.
\<close>

definition quiet :: "session \<Rightarrow> bool" where
  "quiet s = (\<not> truthy (waitingForRevision s)
      \<and> (pendingSources s = None \<or> pendingSources s = Some []))"

text \<open>A string of decimal digits.\<close>

definition decimal_digits :: "string \<Rightarrow> bool" where
  "decimal_digits z = (\<forall>c\<in>set z. \<exists>d<10. c = digit_char d)"

section \<open>Properties of deduplicateSources\<close>

lemma filter_seen_keys:
  "set (map source_key (filter_seen seen xs)) = set (map source_key xs) - seen"
  by (induction xs arbitrary: seen) (auto simp: Let_def)

lemma filter_seen_distinct: "distinct (map source_key (filter_seen seen xs))"
proof (induction xs arbitrary: seen)
  case Nil
  show ?case by simp
next
  case (Cons s rest)
  have "source_key s \<notin> set (map source_key (filter_seen (insert (source_key s) seen) rest))"
    unfolding filter_seen_keys by simp
  with Cons show ?case by (simp add: Let_def)
qed

lemma filter_seen_unchanged:
  "distinct (map source_key xs) \<Longrightarrow> set (map source_key xs) \<inter> seen = {}
   \<Longrightarrow> filter_seen seen xs = xs"
  by (induction xs arbitrary: seen) (auto simp: Let_def)

lemma filter_seen_subseq: "subseq (filter_seen seen xs) xs"
  by (induction xs arbitrary: seen) (auto simp: Let_def)

lemma filter_seen_find:
  "find (\<lambda>s. source_key s = k) (filter_seen seen xs)
     = (if k \<in> seen then None else find (\<lambda>s. source_key s = k) xs)"
  by (induction xs arbitrary: seen) (auto simp: Let_def)

lemma deduplicateSources_idem:
  "deduplicateSources (deduplicateSources xs) = deduplicateSources xs"
  unfolding deduplicateSources_def
  by (rule filter_seen_unchanged) (simp_all add: filter_seen_distinct)

lemma deduplicateSources_three:
  assumes "source_key a = source_key b" and "source_key c \<noteq> source_key a"
  shows "deduplicateSources [a, b, c] = [a, c]"
    and "deduplicateSources [a, c, b] = [a, c]"
    and "deduplicateSources [c, a, b] = [c, a]"
  using assms by (auto simp: deduplicateSources_def Let_def)

text \<open>
  Claim C4. \<open>deduplicateSources\<close> keys a record by its \<open>doi\<close> when that is present (truthy),
  else by its \<open>title\<close>; it returns a new list and is a function of its argument alone.
  \<^item> It is idempotent.
  \<^item> A list whose keys are pairwise different is returned unchanged.
  \<^item> The result is a subsequence of the argument (the original order is kept) in which
    no key occurs twice, and for every key the record kept for it is the first record
    of the argument with that key.
  \<^item> Of three records of which two share a doi \<open>d\<close> and the third has another key, two
    are returned, the first of the two sharing records among them.
\<close>

theorem deduplicateSources_spec:
  "source_key s = (if truthy (doi s) then doi s else title s)
   \<and> deduplicateSources (deduplicateSources xs) = deduplicateSources xs
   \<and> (distinct (map source_key xs) \<longrightarrow> deduplicateSources xs = xs)
   \<and> subseq (deduplicateSources xs) xs
   \<and> distinct (map source_key (deduplicateSources xs))
   \<and> (\<forall>k. find (\<lambda>r. source_key r = k) (deduplicateSources xs)
           = find (\<lambda>r. source_key r = k) xs)
   \<and> (doi a = Str d \<and> doi b = Str d \<and> d \<noteq> [] \<and> source_key c \<noteq> Str d \<longrightarrow>
        deduplicateSources [a, b, c] = [a, c]
      \<and> deduplicateSources [a, c, b] = [a, c]
      \<and> deduplicateSources [c, a, b] = [c, a])"
proof -
  have key: "source_key s = (if truthy (doi s) then doi s else title s)"
    by (simp add: source_key_def js_or_def)
  have unchanged: "distinct (map source_key xs) \<longrightarrow> deduplicateSources xs = xs"
    by (simp add: deduplicateSources_def filter_seen_unchanged)
  have order: "subseq (deduplicateSources xs) xs"
    by (simp add: deduplicateSources_def filter_seen_subseq)
  have once: "distinct (map source_key (deduplicateSources xs))"
    by (simp add: deduplicateSources_def filter_seen_distinct)
  have first: "\<forall>k. find (\<lambda>r. source_key r = k) (deduplicateSources xs)
                  = find (\<lambda>r. source_key r = k) xs"
    by (simp add: deduplicateSources_def filter_seen_find)
  have three: "doi a = Str d \<and> doi b = Str d \<and> d \<noteq> [] \<and> source_key c \<noteq> Str d \<longrightarrow>
        deduplicateSources [a, b, c] = [a, c]
      \<and> deduplicateSources [a, c, b] = [a, c]
      \<and> deduplicateSources [c, a, b] = [c, a]"
  proof
    assume h: "doi a = Str d \<and> doi b = Str d \<and> d \<noteq> [] \<and> source_key c \<noteq> Str d"
    then have "source_key a = Str d" and "source_key b = Str d"
      by (simp_all add: source_key_def js_or_def)
    then have "source_key a = source_key b" and "source_key c \<noteq> source_key a"
      using h by simp_all
    then show "deduplicateSources [a, b, c] = [a, c]
      \<and> deduplicateSources [a, c, b] = [a, c]
      \<and> deduplicateSources [c, a, b] = [c, a]"
      by (simp add: deduplicateSources_three)
  qed
  from key deduplicateSources_idem unchanged order once first three show ?thesis
    by blast
qed

theorem deduplicateSources_spec_witness:
  "distinct (map source_key [paperA, paperC])
   \<and> deduplicateSources [paperA, paperC] = [paperA, paperC]
   \<and> doi paperA = Str ''10.1/x'' \<and> doi paperB = Str ''10.1/x''
   \<and> source_key paperC \<noteq> Str ''10.1/x''
   \<and> deduplicateSources [paperA, paperB, paperC] = [paperA, paperC]
   \<and> deduplicateSources [paperA, paperC, paperB] = [paperA, paperC]
   \<and> deduplicateSources [paperC, paperA, paperB] = [paperC, paperA]"
  using deduplicateSources_spec [of paperA "[paperA, paperC]" paperA "''10.1/x''" paperB paperC]
  by (simp add: paperA_def paperB_def paperC_def source_key_def js_or_def)

section \<open>Properties of chunkContent\<close>

lemma slice_chunk:
  "i < length s \<Longrightarrow> slice s i (i + m) = take m (drop i s)"
  by (simp add: slice_def Let_def min_def)

text \<open>
  The loop from index \<open>i\<close> with the chunks \<open>acc\<close> collected so far: for a positive
  \<open>maxLength\<close> it returns, having appended chunks \<open>r\<close> that make up the rest of the
  content.
\<close>

lemma chunk_loop_spec:
  "0 < m \<Longrightarrow>
    \<exists>r. chunk_loop c m i acc = Some (acc @ r) \<and> concat r = drop i c
       \<and> (\<forall>x\<in>set r. length x \<le> m) \<and> (\<forall>x\<in>set (butlast r). length x = m)
       \<and> (r = [] \<longleftrightarrow> length c \<le> i)"
proof (induction "length c - i" arbitrary: i acc rule: less_induct)
  case less
  show ?case
  proof (cases "i < length c")
    case False
    then show ?thesis by (subst chunk_loop.simps) simp
  next
    case True
    let ?chunk = "take m (drop i c)"
    have "length c - (i + m) < length c - i" using True less.prems by arith
    from less.hyps [OF this less.prems, of "acc @ [?chunk]"]
    obtain r where r: "chunk_loop c m (i + m) (acc @ [?chunk]) = Some ((acc @ [?chunk]) @ r)"
      "concat r = drop (i + m) c" "\<forall>x\<in>set r. length x \<le> m"
      "\<forall>x\<in>set (butlast r). length x = m" "r = [] \<longleftrightarrow> length c \<le> i + m"
      by blast
    have step: "chunk_loop c m i acc = Some (acc @ (?chunk # r))"
      using True r(1) by (subst chunk_loop.simps) (simp add: slice_chunk)
    have cat: "concat (?chunk # r) = drop i c"
    proof -
      have "drop (i + m) c = drop m (drop i c)" by (simp add: add.commute)
      then have "concat (?chunk # r) = ?chunk @ drop m (drop i c)" using r(2) by simp
      also have "\<dots> = drop i c" by (rule append_take_drop_id)
      finally show ?thesis .
    qed
    have full: "r \<noteq> [] \<Longrightarrow> length ?chunk = m" using r(5) by simp
    have most: "\<forall>x\<in>set (butlast (?chunk # r)). length x = m" using r(4) full by simp
    have all: "\<forall>x\<in>set (?chunk # r). length x \<le> m" using r(3) by simp
    have nonempty: "(?chunk # r = []) \<longleftrightarrow> length c \<le> i" using True by simp
    show ?thesis using step cat all most nonempty by blast
  qed
qed

lemma chunkContent_returns: "0 < m \<Longrightarrow> \<exists>chunks. chunkContent s m = Some chunks"
  using chunk_loop_spec [of m s 0 "[]"] by (auto simp: chunkContent_def)

text \<open>
  Claim C10. For every content and every positive \<open>maxLength\<close>, \<open>chunkContent\<close> returns;
  its chunks, concatenated in order, are the content; no chunk is longer than
  \<open>maxLength\<close>; and every chunk but the last has exactly that length.
\<close>

theorem chunkContent_spec:
  "0 < maxLength \<Longrightarrow>
     \<exists>chunks. chunkContent content maxLength = Some chunks
        \<and> concat chunks = content
        \<and> (\<forall>c\<in>set chunks. length c \<le> maxLength)
        \<and> (\<forall>c\<in>set (butlast chunks). length c = maxLength)"
  using chunk_loop_spec [of maxLength content 0 "[]"] by (auto simp: chunkContent_def)

theorem chunkContent_spec_witness:
  "(0::nat) < 3 \<and> chunkContent ''abcdefgh'' 3 = Some [''abc'', ''def'', ''gh'']
    \<and> concat [''abc'', ''def'', ''gh''] = ''abcdefgh''"
  using chunkContent_spec [of 3 "''abcdefgh''"]
  by (simp add: chunkContent_def chunk_loop.simps [of _ _ 0] chunk_loop.simps [of _ _ 3]
        chunk_loop.simps [of _ _ 6] chunk_loop.simps [of _ _ 9] slice_def)

section \<open>Properties of validateData\<close>

text \<open>
  Claim C8. For every validation type and every input, whatever Joi does with the input,
  \<open>validateData\<close> does not throw: it returns a result object, whose \<open>isValid\<close> says
  valid or invalid; a valid result has no error message and an invalid one no validated
  data. When Joi rejects the input, the result is invalid and its \<open>errors\<close> are the
  messages of Joi's details, one for each field that failed, in Joi's order. An
  exception of Joi's and an unknown type give an invalid result with one message, and an
  input that Joi accepts gives the valid result with Joi's value.
\<close>

theorem validateData_spec:
  "(\<exists>r. validateData joi_validate vtype data = Inr r
        \<and> (isValid r \<longrightarrow> errors r = []) \<and> (\<not> isValid r \<longrightarrow> validatedData r \<noteq> Data v))
   \<and> (schemas_lookup vtype = OwnSchema n \<and> joi_validate n data = JoiError details \<longrightarrow>
        validateData joi_validate vtype data
          = Inr \<lparr>isValid = False, errors = map message details, validatedData = NullData\<rparr>)
   \<and> (schemas_lookup vtype = OwnSchema n \<and> joi_validate n data = JoiThrows msg \<longrightarrow>
        validateData joi_validate vtype data
          = Inr \<lparr>isValid = False, errors = [''Validation failed: '' @ msg],
                 validatedData = NullData\<rparr>)
   \<and> (schemas_lookup vtype = OwnSchema n \<and> joi_validate n data = JoiValue v \<longrightarrow>
        validateData joi_validate vtype data
          = Inr \<lparr>isValid = True, errors = [], validatedData = Data v\<rparr>)
   \<and> (schemas_lookup vtype = NoProperty \<longrightarrow>
        validateData joi_validate vtype data
          = Inr \<lparr>isValid = False, errors = [''Unknown validation type: '' @ vtype],
                 validatedData = NoData\<rparr>)"
  by (auto simp: validateData_def validate_try_def
           split: property_lookup.splits joi_result.splits sum.splits)

text \<open>
  An intake without topic and with an unknown user type, as the tests of the repository
  validate it: Joi reports both fields.
\<close>

theorem validateData_spec_witness:
  "schemas_lookup ''intake'' = OwnSchema IntakeSchema
   \<and> validateData
        (\<lambda>n d. JoiError [\<lparr>message = ''\"topic\" is required'', path = [''topic'']\<rparr>,
                          \<lparr>message = ''\"userType\" must be one of [tutor, student, mixed, guest]'',
                           path = [''userType'']\<rparr>] :: unit joi_result)
        ''intake'' ''invalid''
      = Inr \<lparr>isValid = False,
             errors = [''\"topic\" is required'',
                       ''\"userType\" must be one of [tutor, student, mixed, guest]''],
             validatedData = NullData\<rparr>"
  using validateData_spec
    [of "\<lambda>n d. JoiError [\<lparr>message = ''\"topic\" is required'', path = [''topic'']\<rparr>,
                          \<lparr>message = ''\"userType\" must be one of [tutor, student, mixed, guest]'',
                           path = [''userType'']\<rparr>]"
        "''intake''" "''invalid''" "()" IntakeSchema
        "[\<lparr>message = ''\"topic\" is required'', path = [''topic'']\<rparr>,
          \<lparr>message = ''\"userType\" must be one of [tutor, student, mixed, guest]'',
           path = [''userType'']\<rparr>]"]
  by (simp add: schemas_lookup_def)

section \<open>Properties of the string functions\<close>

declare decimal.simps [simp del]

declare bit_length.simps [simp del]

lemma digit_value_digit_char: "d < 10 \<Longrightarrow> digit_value 10 (digit_char d) = Some d"
  by (simp add: digit_value_def digit_char_def Let_def)

lemma of_char_digit_char: "d < 10 \<Longrightarrow> (of_char (digit_char d) :: nat) = 48 + d"
  by (simp add: digit_char_def)

lemma decimal_digits_range:
  "decimal_digits z \<Longrightarrow> c \<in> set z \<Longrightarrow> 48 \<le> (of_char c :: nat) \<and> (of_char c :: nat) \<le> 57"
  using of_char_digit_char by (fastforce simp: decimal_digits_def)

lemma decimal_digits_plain:
  assumes "decimal_digits z"
  shows "CHR ''-'' \<notin> set z" "CHR ''+'' \<notin> set z" "CHR ''x'' \<notin> set z" "CHR ''X'' \<notin> set z"
    "CHR ''_'' \<notin> set z" "\<forall>c\<in>set z. \<not> is_space c"
  using decimal_digits_range [OF assms] by (fastforce simp: is_space_def)+

lemma decimal_digits_decimal: "decimal_digits (decimal n)"
proof (induction n rule: decimal.induct)
  case (1 n)
  show ?case
  proof (cases "n < 10")
    case True
    then show ?thesis by (subst decimal.simps) (auto simp: decimal_digits_def)
  next
    case False
    with 1 have "decimal_digits (decimal (n div 10))" by simp
    moreover have "\<exists>d<10. digit_char (n mod 10) = digit_char d"
      by (intro exI [of _ "n mod 10"]) simp
    ultimately show ?thesis using False
      by (subst decimal.simps) (simp add: decimal_digits_def)
  qed
qed

lemma decimal_nonempty: "decimal n \<noteq> []"
  by (subst decimal.simps) simp

lemma digits_value_snoc:
  "digits_value r (z @ [c])
     = digits_value r z * r + (case digit_value r c of Some d \<Rightarrow> d | None \<Rightarrow> 0)"
  by (simp add: digits_value_def)

lemma digits_value_decimal: "digits_value 10 (decimal n) = n"
proof (induction n rule: decimal.induct)
  case (1 n)
  show ?case
  proof (cases "n < 10")
    case True
    then show ?thesis
      by (subst decimal.simps) (simp add: digits_value_def digit_value_digit_char)
  next
    case False
    with 1 have "digits_value 10 (decimal (n div 10)) = n div 10" by simp
    then show ?thesis using False
      by (subst decimal.simps) (simp add: digits_value_snoc digit_value_digit_char)
  qed
qed

lemma takeWhile_digits:
  "decimal_digits z \<Longrightarrow> takeWhile (\<lambda>c. digit_value 10 c \<noteq> None) z = z"
  by (induction z) (auto simp: decimal_digits_def digit_value_digit_char)

lemma parseInt_string_digits:
  assumes "z \<noteq> []" and "decimal_digits z"
  shows "parseInt_string z
     = (case to_double (digits_value 10 z) of
          Some m \<Rightarrow> Finite False m
        | None \<Rightarrow> Infinite False)"
proof -
  note plain = decimal_digits_plain [OF assms(2)]
  obtain a rest where z: "z = a # rest" using assms(1) by (cases z) auto
  have s1: "dropWhile is_space z = z" using z plain(6) by simp
  have sign: "take 1 z \<noteq> ''-''" "take 1 z \<noteq> ''+''" using z plain(1,2) by auto
  have "take 2 z = [p, q] \<Longrightarrow> q \<in> set z" for p q
    using z by (cases rest) auto
  then have hex: "take 2 z \<noteq> ''0x''" "take 2 z \<noteq> ''0X''"
    using plain(3,4) by blast+
  show ?thesis
    unfolding parseInt_string_def Let_def s1
    using sign hex assms(1) by (simp only: if_False simp_thms takeWhile_digits [OF assms(2)])
qed

lemma bit_length_bound: "n < 2 ^ k \<Longrightarrow> bit_length n \<le> k"
proof (induction k arbitrary: n)
  case 0
  then show ?case by (subst bit_length.simps) simp
next
  case (Suc k)
  then have "n div 2 < 2 ^ k" by simp
  from Suc.IH [OF this] show ?case by (subst bit_length.simps) simp
qed

lemma to_double_exact: "n < 2 ^ 53 \<Longrightarrow> to_double n = Some n"
  using bit_length_bound [of n 53] by (simp add: to_double_def)

text \<open>\<open>parseInt\<close> reads the decimal numeral of \<open>n\<close> as \<open>n\<close>, as far as doubles are exact.\<close>

lemma parseInt_decimal: "n < 2 ^ 53 \<Longrightarrow> parseInt (Str (decimal n)) = Finite False n"
  using parseInt_string_digits [OF decimal_nonempty decimal_digits_decimal, of n]
  by (simp add: parseInt_def digits_value_decimal to_double_exact)

lemma parseInt_7: "parseInt (Str ''7'') = Finite False 7"
  by code_simp

lemma decimal_2: "decimal 2 = ''2''"
  by code_simp

lemma split_on_no_separator: "sep \<notin> set a \<Longrightarrow> split_on sep a = [a]"
  by (induction a) auto

lemma split_on_append:
  "sep \<notin> set a \<Longrightarrow> split_on sep (a @ sep # rest) = a # split_on sep rest"
  by (induction a) auto

lemma decimal_no_underscore: "CHR ''_'' \<notin> set (decimal n)"
  by (rule decimal_digits_plain(5) [OF decimal_digits_decimal])

lemma split_rate:
  "CHR ''_'' \<notin> set draftId \<Longrightarrow>
     split_on (CHR ''_'') (''rate_'' @ draftId @ ''_'' @ decimal n) = [''rate'', draftId, decimal n]"
  using split_on_append [of "CHR ''_''" "''rate''" "draftId @ ''_'' @ decimal n"]
        split_on_append [of "CHR ''_''" draftId "decimal n"]
        split_on_no_separator [OF decimal_no_underscore, of n]
  by simp

section \<open>The draft pipeline: the retry\<close>

text \<open>
  One attempt with a score above the threshold: the call is the call for the
  annotated topic, after four replies.
\<close>

lemma processDraft_retry:
  assumes "generateDraft svc topic sources format len = Inr content"
    and "checkPlagiarism svc content > plagiarism_threshold"
  shows "processDraft svc c topic sources format len
     = processDraft svc
         (reply (PlagiarismRewriting (checkPlagiarism svc content))
           (reply CitationsFormatted (reply DraftGenerated (reply GeneratingDraft c))))
         (topic @ '' (rewrite to be more original)'') sources format len"
  using assms by (subst processDraft.simps) (simp add: Let_def)

text \<open>
  A call that returns has met a score that is not above the threshold, or a failure of
  the generator.
\<close>

lemma processDraft_returns_low_score:
  assumes "processDraft svc c topic sources format len = Some y"
  shows "(\<forall>t. \<exists>content. generateDraft svc t sources format len = Inr content) \<longrightarrow>
     (\<forall>content. checkPlagiarism svc content > plagiarism_threshold) \<longrightarrow> False"
  using assms
proof (induction rule: processDraft.raw_induct [rotated 1, consumes 1])
  case (1 f svc c topic sources format len y)
  show ?case
  proof (intro impI)
    assume gen: "\<forall>t. \<exists>content. generateDraft svc t sources format len = Inr content"
      and high: "\<forall>content. checkPlagiarism svc content > plagiarism_threshold"
    obtain content where g: "generateDraft svc topic sources format len = Inr content"
      using gen by blast
    have "checkPlagiarism svc content > plagiarism_threshold" using high by blast
    with 1(2) g obtain c' t' where "f svc c' t' sources format len = Some y"
      by (simp add: Let_def)
    from 1(1) [OF this] gen high show False by blast
  qed
qed

lemma processDraft_never_returns:
  assumes "\<forall>t. \<exists>content. generateDraft svc t sources format len = Inr content"
    and "\<forall>content. checkPlagiarism svc content > plagiarism_threshold"
  shows "processDraft svc c topic sources format len = None"
proof (cases "processDraft svc c topic sources format len")
  case None
  then show ?thesis .
next
  case (Some y)
  from processDraft_returns_low_score [OF Some] assms show ?thesis by blast
qed

lemma demo_services_always_high:
  "plagiarism_threshold < score \<Longrightarrow>
     (\<forall>t. \<exists>content. generateDraft (demo_services (Responded (Some score)) found) t sources format len
            = Inr content)
   \<and> (\<forall>content. checkPlagiarism (demo_services (Responded (Some score)) found) content
          > plagiarism_threshold)"
  by (simp add: demo_services_def generateDraft_def checkPlagiarism_def)

lemma half_above_threshold: "plagiarism_threshold < 1 / 2"
  by (simp add: plagiarism_threshold_def)

text \<open>
  Claim C1, as amended. \<open>processDraft\<close> has no cap on its regeneration attempts and
  no manual-review outcome. For a plagiarism checker that always returns a score above
  the threshold 0.1, and a draft generator that does not fail, every attempt ends in
  another attempt with \<open>(rewrite to be more original)\<close> appended to the topic: the call
  never returns.
\<close>

theorem processDraft_no_retry_cap:
  assumes "\<forall>t. \<exists>content. generateDraft svc t sources format len = Inr content"
    and "\<forall>content. checkPlagiarism svc content > plagiarism_threshold"
  shows "processDraft svc c topic sources format len = None"
  using assms by (rule processDraft_never_returns)

theorem processDraft_no_retry_cap_witness:
  "(\<forall>t. \<exists>content. generateDraft (demo_services (Responded (Some (1 / 2))) []) t [paperA, paperC] ''MLA'' 3
            = Inr content)
   \<and> (\<forall>content. checkPlagiarism (demo_services (Responded (Some (1 / 2))) []) content
          > plagiarism_threshold)
   \<and> processDraft (demo_services (Responded (Some (1 / 2))) []) fresh_ctx ''Soil carbon''
        [paperA, paperC] ''MLA'' 3 = None"
  using processDraft_no_retry_cap
    [of "demo_services (Responded (Some (1 / 2))) []" "[paperA, paperC]" "''MLA''" 3
        fresh_ctx "''Soil carbon''"]
    demo_services_always_high [OF half_above_threshold]
  by blast

text \<open>
  The claim as the specification states it fails: with a checker that always answers
  0.5, the call for the specification's example topic never returns, whatever number of
  attempts is allowed for.
\<close>

theorem processDraft_retry_cap_counterexample:
  "processDraft (demo_services (Responded (Some (1 / 2))) []) fresh_ctx
     ''Climate change impacts on agriculture'' [paperA] ''APA'' 5 = None"
  using demo_services_always_high [OF half_above_threshold]
  by (intro processDraft_never_returns) blast+

section \<open>The draft pipeline: the quality gate\<close>

lemma foldl_reply:
  "foldl (\<lambda>c' i. reply (f i) c') c xs = c\<lparr>sent := sent c @ map (\<lambda>i. Reply (f i)) xs\<rparr>"
  by (induction xs arbitrary: c) (simp_all add: reply_def emit_def)

lemma send_previews_sent:
  "send_previews chunks c
     = c\<lparr>sent := sent c @ map (\<lambda>i. Reply (DraftPreview (i + 1) (chunks ! i)))
                              [0 ..< min (length chunks) 2]\<rparr>"
  unfolding send_previews_def by (rule foldl_reply)

lemma checkPlagiarism_failed:
  "plagiarism_api svc (take 5000 content) = RequestFailed msg
     \<or> plagiarism_api svc (take 5000 content) = Responded None
   \<Longrightarrow> checkPlagiarism svc content = 0"
  by (auto simp: checkPlagiarism_def)

lemma zero_below_threshold: "\<not> plagiarism_threshold < 0"
  by (simp add: plagiarism_threshold_def)

text \<open>The pipeline once the score is known to pass the gate.\<close>

lemma processDraft_passes:
  assumes gen: "generateDraft svc topic sources format len = Inr content"
    and low: "\<not> plagiarism_threshold < checkPlagiarism svc content"
    and doc: "createWordDocument svc content (formatCitations svc sources format) topic
                = Inr (filename, filepath)"
    and chunks: "chunkContent (take 8000 content) 4000 = Some chunks"
  shows "processDraft svc c topic sources format len
     = Some (Inr \<lparr>draft_content = content,
                  draft_bibliography = formatCitations svc sources format,
                  draft_plagiarismScore = checkPlagiarism svc content,
                  draft_driveLink = uploadToGoogleDrive svc filepath filename (studentId (session c)),
                  draft_filename = filename\<rparr>,
             \<lparr>session = (session c)\<lparr>lastDraft := Some
                  \<lparr>draft_content = content,
                   draft_bibliography = formatCitations svc sources format,
                   draft_plagiarismScore = checkPlagiarism svc content,
                   draft_driveLink = uploadToGoogleDrive svc filepath filename (studentId (session c)),
                   draft_filename = filename,
                   draft_topic = topic, draft_format = format, draft_length = len\<rparr>\<rparr>,
              chat = chat c,
              sent = sent c @
                [Reply GeneratingDraft, Reply DraftGenerated, Reply CitationsFormatted,
                 Reply PlagiarismPassed, Reply DocumentsCreated,
                 Reply (DraftSummary topic format len (checkPlagiarism svc content) (length sources)
                   (uploadToGoogleDrive svc filepath filename (studentId (session c))))]
                @ map (\<lambda>i. Reply (DraftPreview (i + 1) (chunks ! i)))
                    [0 ..< min (length chunks) 2]\<rparr>)"
  using assms
  by (subst processDraft.simps)
     (simp add: Let_def send_previews_sent reply_def emit_def modify_def draft_result.defs draft.defs)

lemma citation_plagiarism_api:
  "citation (svc\<lparr>plagiarism_api := f\<rparr>) = citation svc"
  by (simp add: fun_eq_iff citation_def)

lemma perfect_score_services:
  "generateDraft (svc\<lparr>plagiarism_api := f\<rparr>) = generateDraft svc"
  "formatCitations (svc\<lparr>plagiarism_api := f\<rparr>) = formatCitations svc"
  "createWordDocument (svc\<lparr>plagiarism_api := f\<rparr>) = createWordDocument svc"
  "uploadToGoogleDrive (svc\<lparr>plagiarism_api := f\<rparr>) = uploadToGoogleDrive svc"
  "draft_failed (svc\<lparr>plagiarism_api := f\<rparr>) = draft_failed svc"
  "checkPlagiarism (svc\<lparr>plagiarism_api := (\<lambda>text. Responded (Some 0))\<rparr>) content = 0"
  by (simp_all add: fun_eq_iff generateDraft_def formatCitations_def citation_plagiarism_api
        createWordDocument_def uploadToGoogleDrive_def draft_failed_def checkPlagiarism_def)

lemma demo_chunks: "chunkContent (take 8000 ''# Draft'') 4000 = Some [''# Draft'']"
  by code_simp

text \<open>
  Claim C9. When the plagiarism request fails, or its response has no usable score,
  \<open>checkPlagiarism\<close> returns 0. \<open>processDraft\<close> then does exactly what it does for
  a checker that reports the score 0: the score is not above the threshold, so there is
  no retry and the pipeline goes on to create the document. When the document is
  created, the call returns the draft with the score 0, and all it has sent are the
  progress replies, the summary and the previews: no failure reply and no alert to the
  administrator.
\<close>

theorem failed_check_passes_quality_gate:
  assumes "plagiarism_api svc (take 5000 content) = RequestFailed msg
           \<or> plagiarism_api svc (take 5000 content) = Responded None"
    and "generateDraft svc topic sources format len = Inr content"
  shows "checkPlagiarism svc content = 0
    \<and> processDraft svc c topic sources format len
        = processDraft (svc\<lparr>plagiarism_api := (\<lambda>text. Responded (Some 0))\<rparr>)
            c topic sources format len
    \<and> (createWordDocument svc content (formatCitations svc sources format) topic
          = Inr (filename, filepath) \<longrightarrow>
        (\<exists>chunks. chunkContent (take 8000 content) 4000 = Some chunks
          \<and> processDraft svc c topic sources format len
             = Some (Inr \<lparr>draft_content = content,
                  draft_bibliography = formatCitations svc sources format,
                  draft_plagiarismScore = 0,
                  draft_driveLink = uploadToGoogleDrive svc filepath filename (studentId (session c)),
                  draft_filename = filename\<rparr>,
             \<lparr>session = (session c)\<lparr>lastDraft := Some
                  \<lparr>draft_content = content,
                   draft_bibliography = formatCitations svc sources format,
                   draft_plagiarismScore = 0,
                   draft_driveLink = uploadToGoogleDrive svc filepath filename (studentId (session c)),
                   draft_filename = filename,
                   draft_topic = topic, draft_format = format, draft_length = len\<rparr>\<rparr>,
              chat = chat c,
              sent = sent c @
                [Reply GeneratingDraft, Reply DraftGenerated, Reply CitationsFormatted,
                 Reply PlagiarismPassed, Reply DocumentsCreated,
                 Reply (DraftSummary topic format len 0 (length sources)
                   (uploadToGoogleDrive svc filepath filename (studentId (session c))))]
                @ map (\<lambda>i. Reply (DraftPreview (i + 1) (chunks ! i)))
                    [0 ..< min (length chunks) 2]\<rparr>)))"
proof -
  have zero: "checkPlagiarism svc content = 0"
    using assms(1) by (rule checkPlagiarism_failed)
  have same: "processDraft svc c topic sources format len
        = processDraft (svc\<lparr>plagiarism_api := (\<lambda>text. Responded (Some 0))\<rparr>)
            c topic sources format len"
    using assms(2) zero zero_below_threshold
    by (subst processDraft.simps, subst (2) processDraft.simps)
       (simp add: perfect_score_services Let_def split: sum.split prod.split option.split)
  have pass: "createWordDocument svc content (formatCitations svc sources format) topic
          = Inr (filename, filepath) \<longrightarrow>
        (\<exists>chunks. chunkContent (take 8000 content) 4000 = Some chunks
          \<and> processDraft svc c topic sources format len
             = Some (Inr \<lparr>draft_content = content,
                  draft_bibliography = formatCitations svc sources format,
                  draft_plagiarismScore = 0,
                  draft_driveLink = uploadToGoogleDrive svc filepath filename (studentId (session c)),
                  draft_filename = filename\<rparr>,
             \<lparr>session = (session c)\<lparr>lastDraft := Some
                  \<lparr>draft_content = content,
                   draft_bibliography = formatCitations svc sources format,
                   draft_plagiarismScore = 0,
                   draft_driveLink = uploadToGoogleDrive svc filepath filename (studentId (session c)),
                   draft_filename = filename,
                   draft_topic = topic, draft_format = format, draft_length = len\<rparr>\<rparr>,
              chat = chat c,
              sent = sent c @
                [Reply GeneratingDraft, Reply DraftGenerated, Reply CitationsFormatted,
                 Reply PlagiarismPassed, Reply DocumentsCreated,
                 Reply (DraftSummary topic format len 0 (length sources)
                   (uploadToGoogleDrive svc filepath filename (studentId (session c))))]
                @ map (\<lambda>i. Reply (DraftPreview (i + 1) (chunks ! i)))
                    [0 ..< min (length chunks) 2]\<rparr>))"
  proof
    assume doc: "createWordDocument svc content (formatCitations svc sources format) topic
          = Inr (filename, filepath)"
    obtain chunks where chunks: "chunkContent (take 8000 content) 4000 = Some chunks"
      using chunkContent_returns [of 4000 "take 8000 content"] by auto
    have low: "\<not> plagiarism_threshold < checkPlagiarism svc content"
      using zero zero_below_threshold by simp
    from processDraft_passes [OF assms(2) low doc chunks, of c] zero chunks
    show "\<exists>chunks. chunkContent (take 8000 content) 4000 = Some chunks
          \<and> processDraft svc c topic sources format len
             = Some (Inr \<lparr>draft_content = content,
                  draft_bibliography = formatCitations svc sources format,
                  draft_plagiarismScore = 0,
                  draft_driveLink = uploadToGoogleDrive svc filepath filename (studentId (session c)),
                  draft_filename = filename\<rparr>,
             \<lparr>session = (session c)\<lparr>lastDraft := Some
                  \<lparr>draft_content = content,
                   draft_bibliography = formatCitations svc sources format,
                   draft_plagiarismScore = 0,
                   draft_driveLink = uploadToGoogleDrive svc filepath filename (studentId (session c)),
                   draft_filename = filename,
                   draft_topic = topic, draft_format = format, draft_length = len\<rparr>\<rparr>,
              chat = chat c,
              sent = sent c @
                [Reply GeneratingDraft, Reply DraftGenerated, Reply CitationsFormatted,
                 Reply PlagiarismPassed, Reply DocumentsCreated,
                 Reply (DraftSummary topic format len 0 (length sources)
                   (uploadToGoogleDrive svc filepath filename (studentId (session c))))]
                @ map (\<lambda>i. Reply (DraftPreview (i + 1) (chunks ! i)))
                    [0 ..< min (length chunks) 2]\<rparr>)"
      by simp
  qed
  from zero same pass show ?thesis by blast
qed

theorem failed_check_passes_quality_gate_witness:
  "plagiarism_api (demo_services (RequestFailed ''timeout of 30000ms exceeded'') []) (take 5000 ''# Draft'')
     = RequestFailed ''timeout of 30000ms exceeded''
   \<and> generateDraft (demo_services (RequestFailed ''timeout of 30000ms exceeded'') [])
        ''Soil carbon'' [paperC] ''APA'' 5 = Inr ''# Draft''
   \<and> checkPlagiarism (demo_services (RequestFailed ''timeout of 30000ms exceeded'') []) ''# Draft'' = 0
   \<and> processDraft (demo_services (RequestFailed ''timeout of 30000ms exceeded'') []) fresh_ctx
        ''Soil carbon'' [paperC] ''APA'' 5
      = Some (Inr \<lparr>draft_content = ''# Draft'', draft_bibliography = [],
                   draft_plagiarismScore = 0, draft_driveLink = None,
                   draft_filename = ''draft.txt''\<rparr>,
              \<lparr>session = empty_session\<lparr>lastDraft := Some
                   \<lparr>draft_content = ''# Draft'', draft_bibliography = [],
                    draft_plagiarismScore = 0, draft_driveLink = None,
                    draft_filename = ''draft.txt'', draft_topic = ''Soil carbon'',
                    draft_format = ''APA'', draft_length = 5\<rparr>\<rparr>,
               chat = ''42'',
               sent = [Reply GeneratingDraft, Reply DraftGenerated, Reply CitationsFormatted,
                       Reply PlagiarismPassed, Reply DocumentsCreated,
                       Reply (DraftSummary ''Soil carbon'' ''APA'' 5 0 1 None),
                       Reply (DraftPreview 1 ''# Draft'')]\<rparr>)"
proof -
  let ?svc = "demo_services (RequestFailed ''timeout of 30000ms exceeded'') []"
  have failed: "plagiarism_api ?svc (take 5000 ''# Draft'') = RequestFailed ''timeout of 30000ms exceeded''
                \<or> plagiarism_api ?svc (take 5000 ''# Draft'') = Responded None"
    by (simp add: demo_services_def)
  have gen: "generateDraft ?svc ''Soil carbon'' [paperC] ''APA'' 5 = Inr ''# Draft''"
    by (simp add: demo_services_def generateDraft_def)
  have doc: "createWordDocument ?svc ''# Draft'' (formatCitations ?svc [paperC] ''APA'') ''Soil carbon''
               = Inr (''draft.txt'', ''/tmp/draft.txt'')"
    by (simp add: demo_services_def createWordDocument_def)
  have bib: "formatCitations ?svc [paperC] ''APA'' = []"
    by (simp add: formatCitations_def citation_def paperC_def)
  have link: "uploadToGoogleDrive ?svc ''/tmp/draft.txt'' ''draft.txt'' (studentId empty_session) = None"
    by (simp add: uploadToGoogleDrive_def demo_services_def)
  have fresh: "session fresh_ctx = empty_session" "chat fresh_ctx = ''42''" "sent fresh_ctx = []"
    by (simp_all add: fresh_ctx_def)
  from failed_check_passes_quality_gate [OF failed gen, of fresh_ctx "''draft.txt''" "''/tmp/draft.txt''"]
       doc
  obtain chunks where zero: "checkPlagiarism ?svc ''# Draft'' = 0"
    and chunks: "chunkContent (take 8000 ''# Draft'') 4000 = Some chunks"
    and run: "processDraft ?svc fresh_ctx ''Soil carbon'' [paperC] ''APA'' 5
             = Some (Inr \<lparr>draft_content = ''# Draft'',
                  draft_bibliography = formatCitations ?svc [paperC] ''APA'',
                  draft_plagiarismScore = 0,
                  draft_driveLink = uploadToGoogleDrive ?svc ''/tmp/draft.txt'' ''draft.txt''
                                      (studentId (session fresh_ctx)),
                  draft_filename = ''draft.txt''\<rparr>,
             \<lparr>session = (session fresh_ctx)\<lparr>lastDraft := Some
                  \<lparr>draft_content = ''# Draft'',
                   draft_bibliography = formatCitations ?svc [paperC] ''APA'',
                   draft_plagiarismScore = 0,
                   draft_driveLink = uploadToGoogleDrive ?svc ''/tmp/draft.txt'' ''draft.txt''
                                       (studentId (session fresh_ctx)),
                   draft_filename = ''draft.txt'',
                   draft_topic = ''Soil carbon'', draft_format = ''APA'', draft_length = 5\<rparr>\<rparr>,
              chat = chat fresh_ctx,
              sent = sent fresh_ctx @
                [Reply GeneratingDraft, Reply DraftGenerated, Reply CitationsFormatted,
                 Reply PlagiarismPassed, Reply DocumentsCreated,
                 Reply (DraftSummary ''Soil carbon'' ''APA'' 5 0 (length [paperC])
                   (uploadToGoogleDrive ?svc ''/tmp/draft.txt'' ''draft.txt''
                      (studentId (session fresh_ctx))))]
                @ map (\<lambda>i. Reply (DraftPreview (i + 1) (chunks ! i)))
                    [0 ..< min (length chunks) 2]\<rparr>)"
    by blast
  have "chunks = [''# Draft'']" using chunks demo_chunks by simp
  then have previews: "map (\<lambda>i. Reply (DraftPreview (i + 1) (chunks ! i))) [0 ..< min (length chunks) 2]
                        = [Reply (DraftPreview 1 ''# Draft'')]"
    by simp
  have failed': "plagiarism_api ?svc (take 5000 ''# Draft'') = RequestFailed ''timeout of 30000ms exceeded''"
    by (simp add: demo_services_def)
  show ?thesis
    unfolding run previews fresh bib link using failed' gen zero by simp
qed

section \<open>Properties of the routing\<close>

lemma on_update_cases:
  "on_update svc (TextMessage body command) c
     = Some (if command = Some ''start'' then command_start (middleware c)
             else on_text svc body (middleware c))"
  "on_update svc (CallbackQuery (Some data)) c = on_callback_query svc data (middleware c)"
  "on_update svc (CallbackQuery None) c = Some (on_callback_without_data (middleware c))"
  "on_update svc (Photo f) c = Some (on_photo svc f (middleware c))"
  "on_update svc (Voice f) c = Some (on_voice svc f (middleware c))"
  "on_update svc OtherUpdate c = Some (middleware c)"
  by (simp_all add: on_update_def handlers_def)

lemma middleware_fields:
  "chat (middleware c) = chat c" "sent (middleware c) = sent c"
  "sourceArrays (session (middleware c)) = sourceArrays (session c)"
  "waitingForRevision (session (middleware c)) = waitingForRevision (session c)"
  "waitingForComment (session (middleware c)) = waitingForComment (session c)"
  "pendingSources (session (middleware c)) = pendingSources (session c)"
  "approvedSources (session (middleware c)) = approvedSources (session c)"
  by (simp_all add: middleware_def modify_def pendingSources_def approvedSources_def)

lemma middleware_id: "truthy (userType (session k)) \<Longrightarrow> middleware k = k"
  by (simp add: middleware_def modify_def js_or_def)

lemma middleware_userType: "truthy (userType (session (middleware c)))"
  by (simp add: middleware_def modify_def js_or_def)


section \<open>The sessions a chat can reach\<close>

text \<open>
  \<open>processDraft\<close> changes nothing in the session but \<open>lastDraft\<close>.
\<close>

lemma lastDraft_same: "\<exists>d. (s :: session) = s\<lparr>lastDraft := d\<rparr>"
  by (rule exI [of _ "lastDraft s"]) simp

lemma processDraft_session:
  assumes "processDraft svc c topic sources format len = Some y"
  shows "(\<exists>d. session (snd y) = (session c)\<lparr>lastDraft := d\<rparr>) \<and> chat (snd y) = chat c"
  using assms
proof (induction rule: processDraft.raw_induct [rotated 1, consumes 1])
  case (1 f svc c topic sources format len y)
  show ?case
  proof (cases "generateDraft svc topic sources format len")
    case (Inl msg)
    with 1(2) show ?thesis
      by (auto simp: Let_def draft_failed_def reply_def emit_def lastDraft_same split: option.splits)
  next
    case (Inr content)
    show ?thesis
    proof (cases "checkPlagiarism svc content > plagiarism_threshold")
      case True
      with 1(2) Inr obtain c' t' where c': "f svc c' t' sources format len = Some y"
        "session c' = session c" "chat c' = chat c"
        by (simp add: Let_def reply_def emit_def)
      from 1(1) [OF c'(1)] c'(2,3) show ?thesis by simp
    next
      case False
      with 1(2) Inr show ?thesis
        by (auto simp: Let_def draft_failed_def reply_def emit_def modify_def send_previews_sent
              lastDraft_same split: sum.splits option.splits prod.splits)
    qed
  qed
qed

text \<open>
  Every handler that an update reaches keeps a session quiet: none of them makes
  \<open>waitingForRevision\<close> truthy, and none stores a non-empty array in
  \<open>pendingSources\<close>.
\<close>

lemma quiet_middleware: "quiet (session (middleware c)) = quiet (session c)"
  by (simp add: middleware_def modify_def quiet_def pendingSources_def)

lemma quiet_assign_approved:
  "quiet (s\<lparr>sourceArrays := assign_approved xs (sourceArrays s)\<rparr>) = quiet s"
  by (cases "sourceArrays s") (simp_all add: quiet_def pendingSources_def)

lemma quiet_assign_approved_pending:
  "quiet (s\<lparr>sourceArrays := assign_approved_pending (sourceArrays s)\<rparr>) = quiet s"
  by (cases "sourceArrays s" rule: assign_approved_pending.cases)
     (simp_all add: quiet_def pendingSources_def)

lemma quiet_cancel_sources:
  "quiet s \<Longrightarrow> quiet (s\<lparr>sourceArrays := assign_pending [] (sourceArrays s)\<rparr>)"
  by (cases "sourceArrays s") (simp_all add: quiet_def pendingSources_def)

lemma array_get_Nil: "array_get [] index = None"
  by (simp add: array_get_def split: number.splits)

lemma approve_source_quiet:
  "quiet (session c) \<Longrightarrow> cb_approve_source data c = c"
  by (auto simp: cb_approve_source_def quiet_def array_get_Nil Let_def)

lemma confirm_quiet:
  assumes "cb_confirm_and_process svc c = Some c'" and "quiet (session c)"
  shows "quiet (session c')"
proof (cases "process_sources svc (join_with '' '' (messages (session c))) (chat c)")
  case (Inl msg)
  with assms show ?thesis
    by (auto simp: cb_confirm_and_process_def Let_def workflow_failed_def reply_def emit_def
          modify_def quiet_def pendingSources_def)
next
  case (Inr sources)
  show ?thesis
  proof (cases "sources = []")
    case True
    with assms Inr show ?thesis
      by (cases "sourceArrays (session c)")
         (auto simp: cb_confirm_and_process_def Let_def reply_def emit_def
          modify_def quiet_def pendingSources_def)
  next
    case False
    let ?c2 = "reply (SourcesFound (length sources))
                 (modify (\<lambda>s. s\<lparr>sourceArrays := assign_approved sources (sourceArrays s)\<rparr>)
                    (reply WorkflowStarting c))"
    have q2: "quiet (session ?c2)"
      using assms(2) by (simp add: reply_def emit_def modify_def quiet_assign_approved)
    from assms(1) Inr False obtain y where y: "processDraft svc ?c2
        (join_with '' '' (messages (session c))) sources ''APA'' 5 = Some y"
      by (auto simp: cb_confirm_and_process_def Let_def reply_def emit_def split: option.splits)
    from processDraft_session [OF y] obtain d where
      d: "session (snd y) = (session ?c2)\<lparr>lastDraft := d\<rparr>" by blast
    have q3: "quiet (session (snd y))"
      unfolding d using q2 by (simp add: quiet_def pendingSources_def)
    from assms(1) Inr False y
    have "session c' = (session (snd y))\<lparr>messages := [], isAggregating := False\<rparr>"
      by (cases y)
         (auto simp: cb_confirm_and_process_def Let_def reply_def emit_def modify_def
            workflow_failed_def updateHistory_def split: sum.splits)
    then show ?thesis using q3 by (auto simp: quiet_def pendingSources_def)
  qed
qed

lemma quiet_reply: "quiet (session (reply r c)) = quiet (session c)"
  by (simp add: reply_def emit_def)

lemma type_quiet: "quiet (session c) \<Longrightarrow> quiet (session (cb_type data c))"
  by (simp add: cb_type_def updateHistory_def reply_def emit_def modify_def Let_def
        quiet_def pendingSources_def)

lemma rate_quiet: "quiet (session c) \<Longrightarrow> quiet (session (cb_rate data c))"
  by (simp add: cb_rate_def saveFeedback_def reply_def emit_def modify_def Let_def
        quiet_def pendingSources_def)

lemma comment_quiet: "quiet (session c) \<Longrightarrow> quiet (session (cb_comment data c))"
  by (simp add: cb_comment_def reply_def emit_def modify_def Let_def
        quiet_def pendingSources_def)

lemma download_quiet: "quiet (session c) \<Longrightarrow> quiet (session (cb_download_files c))"
  by (simp add: cb_download_files_def quiet_reply split: option.splits)

lemma approve_all_quiet: "quiet (session c) \<Longrightarrow> quiet (session (cb_approve_all_sources c))"
  by (simp add: cb_approve_all_sources_def Let_def quiet_reply modify_def
        quiet_assign_approved_pending)

lemma cancel_sources_quiet: "quiet (session c) \<Longrightarrow> quiet (session (cb_cancel_sources c))"
  by (simp add: cb_cancel_sources_def quiet_reply modify_def quiet_cancel_sources)

lemma cancel_button_quiet: "quiet (session (reply r (modify (\<lambda>s. empty_session) c)))"
  by (simp add: reply_def emit_def modify_def quiet_def empty_session_def pendingSources_def)

lemma callback_quiet:
  assumes "on_callback_query svc data c = Some c'" and "quiet (session c)"
  shows "quiet (session c')"
proof -
  from assms(1) obtain k where k:
    "(if startsWith data ''type_'' then Some (cb_type data c)
        else if startsWith data ''rate_'' then Some (cb_rate data c)
        else if startsWith data ''comment_'' then Some (cb_comment data c)
        else if data = ''approve_draft'' then Some (reply DraftApproved c)
        else if data = ''download_files'' then Some (cb_download_files c)
        else if startsWith data ''approve_source_'' then Some (cb_approve_source data c)
        else if data = ''approve_all_sources'' then Some (cb_approve_all_sources c)
        else if data = ''cancel_sources'' then Some (cb_cancel_sources c)
        else if data = ''apply_revision'' then Some (reply ApplyingRevision c)
        else if data = ''cancel_revision'' then Some (reply RevisionCancelled c)
        else if data = ''confirm_and_process'' then cb_confirm_and_process svc c
        else if data = ''add_more'' then Some (reply AddMoreDetails c)
        else if data = ''cancel''
          then Some (reply SessionCancelled (modify (\<lambda>s. empty_session) c))
        else Some c) = Some k" and c': "c' = emit AnswerCbQuery k"
    unfolding on_callback_query_def by blast
  note simple = type_quiet [OF assms(2)] rate_quiet [OF assms(2)] comment_quiet [OF assms(2)]
    download_quiet [OF assms(2)] approve_source_quiet [OF assms(2)]
    approve_all_quiet [OF assms(2)] cancel_sources_quiet [OF assms(2)] cancel_button_quiet
    quiet_reply assms(2)
  have "quiet (session k)"
  proof (cases "data = ''confirm_and_process''")
    case True
    with k have "cb_confirm_and_process svc c = Some k" by (simp add: startsWith_def)
    from confirm_quiet [OF this assms(2)] show ?thesis .
  next
    case False
    with k have "k \<in> {cb_type data c, cb_rate data c, cb_comment data c, reply DraftApproved c,
        cb_download_files c, cb_approve_source data c, cb_approve_all_sources c,
        cb_cancel_sources c, reply ApplyingRevision c, reply RevisionCancelled c,
        reply AddMoreDetails c, reply SessionCancelled (modify (\<lambda>s. empty_session) c), c}"
      by (simp split: if_splits)
    then show ?thesis using simple by auto
  qed
  then show ?thesis by (simp add: c' emit_def)
qed

lemma on_update_quiet:
  assumes "on_update svc u c = Some c'" and "quiet (session c)"
  shows "quiet (session c')"
proof -
  have m: "quiet (session (middleware c))" using assms(2) by (simp add: quiet_middleware)
  have words: "quiet (session (on_text svc body k))" if "quiet (session k)" for body k
    using that
    by (cases "groq_revision svc body")
       (simp_all add: on_text_def saveFeedback_def reply_def emit_def modify_def Let_def
          quiet_def pendingSources_def)
  have media: "quiet (session (on_photo svc f k))" "quiet (session (on_voice svc f k))"
    "quiet (session (command_start k))" "quiet (session (on_callback_without_data k))"
    if "quiet (session k)" for f k
    using that
    by (simp_all add: on_photo_def on_voice_def command_start_def on_callback_without_data_def
          reply_def emit_def modify_def Let_def quiet_def pendingSources_def split: sum.splits)
  show ?thesis
  proof (cases u)
    case (TextMessage body command)
    with assms(1) m words media show ?thesis by (auto simp: on_update_cases split: if_splits)
  next
    case (CallbackQuery d)
    with assms(1) m media callback_quiet show ?thesis
      by (cases d) (auto simp: on_update_cases)
  next
    case (Photo f)
    with assms(1) m media show ?thesis by (auto simp: on_update_cases)
  next
    case (Voice f)
    with assms(1) m media show ?thesis by (auto simp: on_update_cases)
  next
    case OtherUpdate
    with assms(1) m show ?thesis by (auto simp: on_update_cases)
  qed
qed

lemma run_quiet:
  assumes "run steps c = Some c'" and "quiet (session c)"
  shows "quiet (session c')"
  using assms
proof (induction steps arbitrary: c)
  case Nil
  then show ?case by simp
next
  case (Cons step rest)
  obtain svc u where step: "step = (svc, u)" by (cases step)
  from Cons.prems(1) obtain c1 where c1: "on_update svc u c = Some c1" "run rest c1 = Some c'"
    by (auto simp: step split: option.splits)
  from Cons.IH [OF c1(2) on_update_quiet [OF c1(1) Cons.prems(2)]] show ?case .
qed

lemma new_chat_quiet: "quiet (session (new_chat chatId))"
  by (simp add: new_chat_def empty_session_def quiet_def pendingSources_def)

lemma reached_quiet:
  "run steps (new_chat chatId) = Some c \<Longrightarrow> quiet (session c)"
  using run_quiet [OF _ new_chat_quiet] by blast

text \<open>The example chats return.\<close>

lemma busy_chat_runs: "map_option chat (run busy_chat (new_chat ''42'')) = Some ''42''"
  by code_simp

lemma busy_chat_sources:
  "map_option (\<lambda>c. (approvedSources (session c), pendingSources (session c)))
     (run busy_chat (new_chat ''42'')) = Some ([paperC], None)"
  by code_simp


section \<open>The handlers: buttons\<close>

lemma startsWith_prefix: "startsWith data p \<Longrightarrow> data = p @ drop (length p) data"
  unfolding startsWith_def by (metis append_take_drop_id)

lemma on_callback_approve_source:
  assumes "startsWith data ''approve_source_''"
  shows "on_callback_query svc data c = Some (emit AnswerCbQuery (cb_approve_source data c))"
proof -
  obtain rest where "data = ''approve_source_'' @ rest"
    using startsWith_prefix [OF assms] by blast
  then show ?thesis by (simp add: on_callback_query_def startsWith_def)
qed

lemma on_callback_rate:
  "on_callback_query svc (''rate_'' @ rest) c = Some (emit AnswerCbQuery (cb_rate (''rate_'' @ rest) c))"
  by (simp add: on_callback_query_def startsWith_def)


text \<open>
  White space before the index is skipped, the no-break space too: the button data
  \<open>approve_source_\<close>, \<open>U+00A0\<close>, \<open>0\<close> approves the first pending source.
\<close>

lemma approve_source_after_no_break_space:
  "map_option (\<lambda>c. (approvedSources (session c), sent c))
     (on_callback_query (ok_services []) (''approve_source_'' @ [CHR 0xA0] @ ''0'')
        three_pending_ctx)
   = Some ([paperA], [Reply (SourceApproved (Str ''Crop yields under drought'')), AnswerCbQuery])"
  by code_simp

text \<open>
  Claim C6. Callback data \<open>approve_source_\<close> followed by an index that is not an index of
  the current \<open>pendingSources\<close> (the index is past the end, negative, infinite or not a
  number, or there are no pending sources) changes nothing: the handler returns, the
  session is as it was (as the middleware leaves it, when the update comes through the
  bot), and all that is sent is the acknowledgement of the callback, with no reply to
  the user.
\<close>

theorem approve_source_missing_index_is_ignored:
  assumes "startsWith data ''approve_source_''"
    and "\<forall>pending negative i. pendingSources (session c) = Some pending
            \<and> parseInt (Str (drop 15 data)) = Finite negative i
            \<longrightarrow> (negative \<and> i \<noteq> 0) \<or> length pending \<le> i"
  shows "on_callback_query svc data c = Some (c\<lparr>sent := sent c @ [AnswerCbQuery]\<rparr>)
     \<and> on_update svc (CallbackQuery (Some data)) c
         = Some ((middleware c)\<lparr>sent := sent c @ [AnswerCbQuery]\<rparr>)"
proof -
  have same: "cb_approve_source data k = k"
    if "pendingSources (session k) = pendingSources (session c)" for k
    using assms(2) that
    by (auto simp: cb_approve_source_def array_get_def Let_def split: option.splits number.splits)
  have "on_callback_query svc data k = Some (k\<lparr>sent := sent k @ [AnswerCbQuery]\<rparr>)"
    if "pendingSources (session k) = pendingSources (session c)" for k
    using on_callback_approve_source [OF assms(1), of svc k] same [OF that] by (simp add: emit_def)
  from this [of c] this [of "middleware c"] show ?thesis
    by (simp add: on_update_cases middleware_fields)
qed

text \<open>
  The button \<open>approve_source_7\<close> with three pending sources, and the button
  \<open>approve_source_0\<close> in a chat whose workflow has delivered a draft.
\<close>

theorem approve_source_missing_index_is_ignored_witness:
  "startsWith ''approve_source_7'' ''approve_source_''
   \<and> pendingSources (session three_pending_ctx) = Some [paperA, paperC, paperD]
   \<and> parseInt (Str (drop 15 ''approve_source_7'')) = Finite False 7
   \<and> on_callback_query (ok_services []) ''approve_source_7'' three_pending_ctx
       = Some (three_pending_ctx\<lparr>sent := sent three_pending_ctx @ [AnswerCbQuery]\<rparr>)
   \<and> startsWith ''approve_source_0'' ''approve_source_''
   \<and> (\<exists>c. run busy_chat (new_chat ''42'') = Some c \<and> pendingSources (session c) = None
        \<and> on_update (ok_services []) (CallbackQuery (Some ''approve_source_0'')) c
            = Some ((middleware c)\<lparr>sent := sent c @ [AnswerCbQuery]\<rparr>))"
proof -
  have sw: "startsWith ''approve_source_7'' ''approve_source_''"
    "startsWith ''approve_source_0'' ''approve_source_''"
    by (simp_all add: startsWith_def)
  have idx: "parseInt (Str (drop 15 ''approve_source_7'')) = Finite False 7"
    using parseInt_7 by simp
  have pending: "pendingSources (session three_pending_ctx) = Some [paperA, paperC, paperD]"
    by (simp add: three_pending_ctx_def pendingSources_def)
  have miss: "\<forall>pending negative i. pendingSources (session three_pending_ctx) = Some pending
            \<and> parseInt (Str (drop 15 ''approve_source_7'')) = Finite negative i
            \<longrightarrow> (negative \<and> i \<noteq> 0) \<or> length pending \<le> i"
    unfolding idx pending by simp
  obtain c where c: "run busy_chat (new_chat ''42'') = Some c"
    and none: "pendingSources (session c) = None"
    using busy_chat_sources by auto
  have miss': "\<forall>pending negative i. pendingSources (session c) = Some pending
            \<and> parseInt (Str (drop 15 ''approve_source_0'')) = Finite negative i
            \<longrightarrow> (negative \<and> i \<noteq> 0) \<or> length pending \<le> i"
    unfolding none by simp
  from approve_source_missing_index_is_ignored [OF sw(1) miss, of "ok_services []"]
       approve_source_missing_index_is_ignored [OF sw(2) miss', of "ok_services []"]
       sw idx pending c none
  show ?thesis by blast
qed

lemma comment_captured:
  assumes "\<not> truthy (waitingForRevision (session k))" and "truthy (waitingForComment (session k))"
  shows "on_text svc body k
     = k\<lparr>session := (session k)\<lparr>waitingForComment := Undefined\<rparr>,
         sent := sent k @ [LogFeedback (chat k) (Finite False 0) body, Reply FeedbackThanks]\<rparr>"
  using assms by (simp add: on_text_def saveFeedback_def reply_def emit_def modify_def)

text \<open>
  Claim C7, as amended. In a chat the bot can have reached, callback data
  \<open>rate_<id>_<n>\<close>, with a non-empty id free of underscores and the decimal numeral of a
  rating \<open>n\<close> below \<open>2\<^sup>5\<^sup>3\<close>, passes the rating \<open>n\<close> to \<open>saveFeedback\<close>, which
  writes a line to the console and stores nothing, and thanks the user. For \<open>n \<le> 3\<close>
  the session's \<open>waitingForComment\<close> becomes the id and the user is asked what to
  improve; the next text message that is not the command \<open>/start\<close> is then passed to
  \<open>saveFeedback\<close> as a comment (in a call of its own, with rating 0, logged like
  the rating) and the marker is removed. Nothing else in the session changes: the text
  is not added to a request and starts none. For \<open>n > 3\<close> the session stays as it
  was.
\<close>

theorem low_rating_awaits_comment:
  assumes "run steps (new_chat chatId) = Some c"
    and "CHR ''_'' \<notin> set draftId" and "draftId \<noteq> []" and "n < 2 ^ 53"
    and "command \<noteq> Some ''start''"
  shows "\<exists>c1. on_update svc (CallbackQuery (Some (''rate_'' @ draftId @ ''_'' @ decimal n))) c
                = Some c1
      \<and> chat c1 = chat c
      \<and> (n \<le> 3 \<longrightarrow>
           sent c1 = sent c @ [LogFeedback (chat c) (Finite False n) [],
                               Reply (RatingThanks (Str (decimal n))),
                               Reply AskWhatToImprove, AnswerCbQuery]
         \<and> session c1 = (session (middleware c))\<lparr>waitingForComment := Str draftId\<rparr>
         \<and> on_update svc' (TextMessage body command) c1
             = Some (c1\<lparr>session := (session (middleware c))\<lparr>waitingForComment := Undefined\<rparr>,
                       sent := sent c1 @ [LogFeedback (chat c) (Finite False 0) body,
                                          Reply FeedbackThanks]\<rparr>))
      \<and> (3 < n \<longrightarrow>
           sent c1 = sent c @ [LogFeedback (chat c) (Finite False n) [],
                               Reply (RatingThanks (Str (decimal n))), AnswerCbQuery]
         \<and> session c1 = session (middleware c))"
proof -
  let ?data = "''rate_'' @ draftId @ ''_'' @ decimal n"
  let ?m = "middleware c"
  have parts: "split_on (CHR ''_'') ?data = [''rate'', draftId, decimal n]"
    using assms(2) by (rule split_rate)
  have rate: "cb_rate ?data ?m =
      (if n \<le> 3
       then reply AskWhatToImprove
              (modify (\<lambda>s. s\<lparr>waitingForComment := Str draftId\<rparr>)
                (reply (RatingThanks (Str (decimal n)))
                  (emit (LogFeedback (chat c) (Finite False n) []) ?m)))
       else reply (RatingThanks (Str (decimal n)))
              (emit (LogFeedback (chat c) (Finite False n) []) ?m))"
    unfolding cb_rate_def parts
    by (simp add: Let_def element_def parseInt_decimal [OF assms(4)] saveFeedback_def
          middleware_fields)
  define c1 where "c1 = emit AnswerCbQuery (cb_rate ?data ?m)"
  have run: "on_update svc (CallbackQuery (Some ?data)) c = Some c1"
    unfolding c1_def using on_callback_rate [of svc "draftId @ ''_'' @ decimal n" ?m]
    by (simp add: on_update_cases)
  have same_chat: "chat c1 = chat c"
    unfolding c1_def rate by (simp add: reply_def emit_def modify_def middleware_fields)
  have idle: "\<not> truthy (waitingForRevision (session c))"
    using reached_quiet [OF assms(1)] by (simp add: quiet_def)
  have low: "n \<le> 3 \<longrightarrow>
           sent c1 = sent c @ [LogFeedback (chat c) (Finite False n) [],
                               Reply (RatingThanks (Str (decimal n))),
                               Reply AskWhatToImprove, AnswerCbQuery]
         \<and> session c1 = (session (middleware c))\<lparr>waitingForComment := Str draftId\<rparr>
         \<and> on_update svc' (TextMessage body command) c1
             = Some (c1\<lparr>session := (session (middleware c))\<lparr>waitingForComment := Undefined\<rparr>,
                       sent := sent c1 @ [LogFeedback (chat c) (Finite False 0) body,
                                          Reply FeedbackThanks]\<rparr>)"
  proof
    assume n: "n \<le> 3"
    have sent1: "sent c1 = sent c @ [LogFeedback (chat c) (Finite False n) [],
                               Reply (RatingThanks (Str (decimal n))),
                               Reply AskWhatToImprove, AnswerCbQuery]"
      unfolding c1_def rate using n by (simp add: reply_def emit_def modify_def middleware_fields)
    have session1: "session c1 = (session ?m)\<lparr>waitingForComment := Str draftId\<rparr>"
      unfolding c1_def rate using n by (simp add: reply_def emit_def modify_def)
    have "truthy (userType (session c1))"
      unfolding session1 by (simp add: middleware_userType)
    then have again: "middleware c1 = c1" by (rule middleware_id)
    have marks: "\<not> truthy (waitingForRevision (session c1))" "truthy (waitingForComment (session c1))"
      unfolding session1 using idle assms(3) by (simp_all add: middleware_fields)
    have "on_update svc' (TextMessage body command) c1 = Some (on_text svc' body c1)"
      using assms(5) by (simp add: on_update_cases again)
    also have "on_text svc' body c1
        = c1\<lparr>session := (session c1)\<lparr>waitingForComment := Undefined\<rparr>,
            sent := sent c1 @ [LogFeedback (chat c1) (Finite False 0) body, Reply FeedbackThanks]\<rparr>"
      using marks by (rule comment_captured)
    finally have captured: "on_update svc' (TextMessage body command) c1
             = Some (c1\<lparr>session := (session (middleware c))\<lparr>waitingForComment := Undefined\<rparr>,
                       sent := sent c1 @ [LogFeedback (chat c) (Finite False 0) body,
                                          Reply FeedbackThanks]\<rparr>)"
      by (simp add: session1 same_chat)
    from sent1 session1 captured
    show "sent c1 = sent c @ [LogFeedback (chat c) (Finite False n) [],
                               Reply (RatingThanks (Str (decimal n))),
                               Reply AskWhatToImprove, AnswerCbQuery]
         \<and> session c1 = (session (middleware c))\<lparr>waitingForComment := Str draftId\<rparr>
         \<and> on_update svc' (TextMessage body command) c1
             = Some (c1\<lparr>session := (session (middleware c))\<lparr>waitingForComment := Undefined\<rparr>,
                       sent := sent c1 @ [LogFeedback (chat c) (Finite False 0) body,
                                          Reply FeedbackThanks]\<rparr>)"
      by blast
  qed
  have high: "3 < n \<longrightarrow>
           sent c1 = sent c @ [LogFeedback (chat c) (Finite False n) [],
                               Reply (RatingThanks (Str (decimal n))), AnswerCbQuery]
         \<and> session c1 = session (middleware c)"
    unfolding c1_def rate by (simp add: reply_def emit_def modify_def middleware_fields)
  from run same_chat low high show ?thesis by blast
qed

text \<open>
  A rating of 2 with the comment that follows, in a chat whose workflow has delivered a
  draft.
\<close>

theorem low_rating_awaits_comment_witness:
  "CHR ''_'' \<notin> set ''1730534400000'' \<and> ''1730534400000'' \<noteq> [] \<and> (2 :: nat) < 2 ^ 53
   \<and> (None :: string option) \<noteq> Some ''start''
   \<and> (\<exists>c c1. run busy_chat (new_chat ''42'') = Some c
        \<and> on_update (ok_services []) (CallbackQuery (Some ''rate_1730534400000_2'')) c = Some c1
        \<and> sent c1 = sent c @ [LogFeedback ''42'' (Finite False 2) [],
                               Reply (RatingThanks (Str ''2'')),
                               Reply AskWhatToImprove, AnswerCbQuery]
        \<and> session c1 = (session (middleware c))\<lparr>waitingForComment := Str ''1730534400000''\<rparr>
        \<and> on_update (ok_services []) (TextMessage ''The introduction is too thin'' None) c1
            = Some (c1\<lparr>session := (session (middleware c))\<lparr>waitingForComment := Undefined\<rparr>,
                      sent := sent c1 @ [LogFeedback ''42'' (Finite False 0)
                                           ''The introduction is too thin'',
                                         Reply FeedbackThanks]\<rparr>))"
proof -
  have id: "CHR ''_'' \<notin> set ''1730534400000''" "''1730534400000'' \<noteq> []" by simp_all
  have n: "(2 :: nat) < 2 ^ 53" by simp
  have free: "(None :: string option) \<noteq> Some ''start''" by simp
  obtain c where c: "run busy_chat (new_chat ''42'') = Some c" and chat: "chat c = ''42''"
    using busy_chat_runs by auto
  from low_rating_awaits_comment [OF c id n free, of "ok_services []" "ok_services []"
         "''The introduction is too thin''"]
  have "\<exists>c1. on_update (ok_services []) (CallbackQuery (Some ''rate_1730534400000_2'')) c = Some c1
        \<and> sent c1 = sent c @ [LogFeedback ''42'' (Finite False 2) [],
                               Reply (RatingThanks (Str ''2'')),
                               Reply AskWhatToImprove, AnswerCbQuery]
        \<and> session c1 = (session (middleware c))\<lparr>waitingForComment := Str ''1730534400000''\<rparr>
        \<and> on_update (ok_services []) (TextMessage ''The introduction is too thin'' None) c1
            = Some (c1\<lparr>session := (session (middleware c))\<lparr>waitingForComment := Undefined\<rparr>,
                      sent := sent c1 @ [LogFeedback ''42'' (Finite False 0)
                                           ''The introduction is too thin'',
                                         Reply FeedbackThanks]\<rparr>)"
    by (simp add: decimal_2 chat) blast
  with id n free c show ?thesis by blast
qed

text \<open>
  The claim as the specification states it fails. In a new chat, a rating of 2 and the
  comment after it leave two lines on the console, three replies and the
  acknowledgement of the button: no feedback is stored. With an underscore in the id
  (\<open>rate_draft_7_2\<close>) the rating passed on is 7, no comment is awaited, and the next
  text starts a new request; with an empty id (\<open>rate__2\<close>) the marker is the empty
  string, which is falsy, and the next text starts a new request as well.
\<close>

theorem feedback_is_only_logged_counterexample:
  "map_option sent
     (run [press (ok_services []) ''rate_17_2'',
           says (ok_services []) ''The introduction is too thin''] (new_chat ''42''))
   = Some [LogFeedback ''42'' (Finite False 2) [], Reply (RatingThanks (Str ''2'')),
           Reply AskWhatToImprove, AnswerCbQuery,
           LogFeedback ''42'' (Finite False 0) ''The introduction is too thin'',
           Reply FeedbackThanks]
   \<and> map_option (\<lambda>c. (sent c, waitingForComment (session c), currentTopic (session c)))
     (run [press (ok_services []) ''rate_draft_7_2'',
           says (ok_services []) ''The introduction is too thin''] (new_chat ''42''))
   = Some ([LogFeedback ''42'' (Finite False 7) [], Reply (RatingThanks (Str ''7'')),
            AnswerCbQuery, Reply RequestReceived],
           Undefined, Str ''The introduction is too thin'')
   \<and> map_option (\<lambda>c. (sent c, waitingForComment (session c), currentTopic (session c)))
     (run [press (ok_services []) ''rate__2'',
           says (ok_services []) ''The introduction is too thin''] (new_chat ''42''))
   = Some ([LogFeedback ''42'' (Finite False 2) [], Reply (RatingThanks (Str ''2'')),
            Reply AskWhatToImprove, AnswerCbQuery, Reply RequestReceived],
           Str [], Str ''The introduction is too thin'')"
  by code_simp

section \<open>The handlers: approving sources\<close>






section \<open>The handlers: waiting for a text, and cancelling\<close>



text \<open>What the handler of \<open>/cancel\<close> would do to a session, and what the \<open>Cancel\<close> button does.\<close>

lemma command_cancel_session:
  "session (command_cancel c)
     = (session c)\<lparr>isAggregating := False, messages := [],
          waitingForRevision := Bool False, waitingForComment := Bool False,
          sourceArrays := assign_pending [] (sourceArrays (session c))\<rparr>"
  by (simp add: command_cancel_def reply_def emit_def modify_def)

lemma cancel_button_session:
  "map_option session (on_update svc (CallbackQuery (Some ''cancel'')) c) = Some empty_session"
  by (simp add: on_update_cases on_callback_query_def startsWith_def emit_def reply_def
        modify_def)

lemma cancel_after_busy_chat:
  "map_option (\<lambda>c. (isAggregating (session c), messages (session c),
                    approvedSources (session c), lastDraft (session c) \<noteq> None,
                    currentTopic (session c), last (sent c)))
     (run (busy_chat @ [(ok_services [paperC], TextMessage ''/cancel'' (Some ''cancel''))])
        (new_chat ''42''))
   = Some (True, [''Climate change impacts on agriculture'', ''/cancel''], [paperC], True,
           Str ''Climate change impacts on agriculture'', Reply AddedToRequest)"
  by code_simp

text \<open>
  Claim C3 against the code. The message \<open>/cancel\<close> is a text message, and the handler
  of text messages is registered before the handler of the command: \<open>/cancel\<close> is
  handled as a text, and the handler written for it is never reached. In a chat that
  has a draft and has begun a new request, \<open>/cancel\<close> is added to the request: the
  request is still being collected, its messages are kept, and so are the approved
  sources and the last draft. Were the handler of the command reached, it would end the
  collecting, empty the messages and the pending sources and clear both markers, and
  still keep the approved sources and the last draft. The \<open>Cancel\<close> button leaves
  the empty session.
\<close>

theorem cancel_command_is_handled_as_text:
  "on_update svc (TextMessage body (Some ''cancel'')) c = Some (on_text svc body (middleware c))
   \<and> map_option (\<lambda>c. (isAggregating (session c), messages (session c),
                    approvedSources (session c), lastDraft (session c) \<noteq> None,
                    currentTopic (session c), last (sent c)))
     (run (busy_chat @ [(ok_services [paperC], TextMessage ''/cancel'' (Some ''cancel''))])
        (new_chat ''42''))
   = Some (True, [''Climate change impacts on agriculture'', ''/cancel''], [paperC], True,
           Str ''Climate change impacts on agriculture'', Reply AddedToRequest)
   \<and> session (command_cancel c)
     = (session c)\<lparr>isAggregating := False, messages := [],
          waitingForRevision := Bool False, waitingForComment := Bool False,
          sourceArrays := assign_pending [] (sourceArrays (session c))\<rparr>
   \<and> map_option session (on_update svc (CallbackQuery (Some ''cancel'')) c) = Some empty_session"
  using cancel_after_busy_chat command_cancel_session [of c] cancel_button_session [of svc c]
  by (simp add: on_update_cases)

end
